theory Spec2Isabelle
  imports Main
begin

section \<open>Go string primitives\<close>

text \<open>
  Go strings are byte sequences; \<^typ>\<open>string\<close> is a list of 8-bit characters, so
  indices and lengths agree with Go's. Only the functions of package \<open>strings\<close> that the
  analyzer calls are written out, each following the documented behaviour of the
  standard library.
\<close>

definition HasPrefix :: "string \<Rightarrow> string \<Rightarrow> bool" where
  "HasPrefix s p = (take (length p) s = p)"

definition HasSuffix :: "string \<Rightarrow> string \<Rightarrow> bool" where
  "HasSuffix s p = (length p \<le> length s \<and> drop (length s - length p) s = p)"

definition TrimPrefix :: "string \<Rightarrow> string \<Rightarrow> string" where
  "TrimPrefix s p = (if HasPrefix s p then drop (length p) s else s)"

definition TrimSuffix :: "string \<Rightarrow> string \<Rightarrow> string" where
  "TrimSuffix s p = (if HasSuffix s p then take (length s - length p) s else s)"

text \<open>\<open>strings.Index\<close>: byte offset of the first occurrence, \<open>None\<close> for Go's \<open>-1\<close>.\<close>

fun Index :: "string \<Rightarrow> string \<Rightarrow> nat option" where
  "Index [] sub = (if sub = [] then Some 0 else None)"
| "Index (c # cs) sub =
     (if HasPrefix (c # cs) sub then Some 0
      else (case Index cs sub of None \<Rightarrow> None | Some i \<Rightarrow> Some (Suc i)))"

definition Contains :: "string \<Rightarrow> string \<Rightarrow> bool" where
  "Contains s sub = (Index s sub \<noteq> None)"

text \<open>\<open>strings.Split\<close> with a one-byte separator: always at least one piece.\<close>

fun Split :: "string \<Rightarrow> char \<Rightarrow> string list" where
  "Split [] sep = [[]]"
| "Split (c # cs) sep =
     (if c = sep then [] # Split cs sep
      else (case Split cs sep of
              [] \<Rightarrow> [[c]]
            | p # ps \<Rightarrow> (c # p) # ps))"

fun Join :: "string list \<Rightarrow> string \<Rightarrow> string" where
  "Join [] sep = []"
| "Join [p] sep = p"
| "Join (p # q # ps) sep = p @ sep @ Join (q # ps) sep"

text \<open>
  \<open>strings.TrimSpace\<close> removes leading and trailing white space as defined by Unicode.
  On the UTF-8 bytes of the string these are the six ASCII space bytes and the encodings
  of U+0085, U+00A0, U+1680, U+2000..U+200A, U+2028, U+2029, U+202F, U+205F and U+3000.
\<close>

definition spaceRunes :: "string list" where
  "spaceRunes =
     [[CHR 0x09], [CHR 0x0A], [CHR 0x0B], [CHR 0x0C], [CHR 0x0D], [CHR 0x20],
      [CHR 0xC2, CHR 0x85], [CHR 0xC2, CHR 0xA0],
      [CHR 0xE1, CHR 0x9A, CHR 0x80],
      [CHR 0xE2, CHR 0x80, CHR 0x80], [CHR 0xE2, CHR 0x80, CHR 0x81],
      [CHR 0xE2, CHR 0x80, CHR 0x82], [CHR 0xE2, CHR 0x80, CHR 0x83],
      [CHR 0xE2, CHR 0x80, CHR 0x84], [CHR 0xE2, CHR 0x80, CHR 0x85],
      [CHR 0xE2, CHR 0x80, CHR 0x86], [CHR 0xE2, CHR 0x80, CHR 0x87],
      [CHR 0xE2, CHR 0x80, CHR 0x88], [CHR 0xE2, CHR 0x80, CHR 0x89],
      [CHR 0xE2, CHR 0x80, CHR 0x8A],
      [CHR 0xE2, CHR 0x80, CHR 0xA8], [CHR 0xE2, CHR 0x80, CHR 0xA9],
      [CHR 0xE2, CHR 0x80, CHR 0xAF], [CHR 0xE2, CHR 0x81, CHR 0x9F],
      [CHR 0xE3, CHR 0x80, CHR 0x80]]"

text \<open>
  Length in bytes of the white-space rune the string starts (ends) with, 0 when there is
  none. The two trimming loops remove one rune per step.
\<close>

definition leadingSpace :: "string \<Rightarrow> nat" where
  "leadingSpace s = (case filter (HasPrefix s) spaceRunes of [] \<Rightarrow> 0 | r # _ \<Rightarrow> length r)"

definition trailingSpace :: "string \<Rightarrow> nat" where
  "trailingSpace s = (case filter (HasSuffix s) spaceRunes of [] \<Rightarrow> 0 | r # _ \<Rightarrow> length r)"

function TrimLeftSpace :: "string \<Rightarrow> string" where
  "TrimLeftSpace [] = []"
| "TrimLeftSpace (c # cs) =
     (if 0 < leadingSpace (c # cs) then TrimLeftSpace (drop (leadingSpace (c # cs)) (c # cs))
      else c # cs)"
  by pat_completeness auto
termination
  by (relation "measure length") auto

function TrimRightSpace :: "string \<Rightarrow> string" where
  "TrimRightSpace [] = []"
| "TrimRightSpace (c # cs) =
     (if 0 < trailingSpace (c # cs)
      then TrimRightSpace (take (length (c # cs) - trailingSpace (c # cs)) (c # cs))
      else c # cs)"
  by pat_completeness auto
termination
  by (relation "measure length") auto

definition TrimSpace :: "string \<Rightarrow> string" where
  "TrimSpace s = TrimRightSpace (TrimLeftSpace s)"

section \<open>Endpoint Enhancer: security derivation\<close>

text \<open>\<open>SecurityRequirement\<close> of the analyzer: a scheme name and its scopes.\<close>

record SecurityRequirement =
  Name :: string
  Scopes :: "string list"

text \<open>\<open>knownPermissionConstants\<close>: the static table of symbolic permission constants.\<close>

definition knownPermissionConstants :: "string \<rightharpoonup> string" where
  "knownPermissionConstants =
     [''session_manager_models.SuperadminRoleFeature'' \<mapsto> ''superadmin'']"

text \<open>
  \<open>cleanPermissionArg\<close>: trim white space, drop one pair of surrounding double or single
  quotes, then resolve a known constant.
\<close>

definition cleanPermissionArg :: "string \<Rightarrow> string" where
  "cleanPermissionArg arg0 =
     (let arg1 = TrimSpace arg0;
          arg2 = (if 2 \<le> length arg1 \<and>
                     ((hd arg1 = CHR 0x22 \<and> last arg1 = CHR 0x22) \<or>
                      (hd arg1 = CHR 0x27 \<and> last arg1 = CHR 0x27))
                  then take (length arg1 - 2) (drop 1 arg1) else arg1)
      in (case knownPermissionConstants arg2 of Some resolved \<Rightarrow> resolved | None \<Rightarrow> arg2))"

text \<open>
  The parenthesis scan of \<open>extractPermissionsFromMiddleware\<close>. It runs over the bytes
  after the pattern, with the depth starting at 1, and stops when the depth reaches 0.
  The result is \<open>end - start\<close>: the offset of the matching closing parenthesis, and 0 when
  the text ends first (\<open>end\<close> is then still \<open>start\<close>).
\<close>

fun closingParen :: "string \<Rightarrow> nat \<Rightarrow> nat \<Rightarrow> nat" where
  "closingParen [] parenDepth i = 0"
| "closingParen (c # cs) parenDepth i =
     (if c = CHR ''('' then closingParen cs (Suc parenDepth) (Suc i)
      else if c = CHR '')'' then
        (if parenDepth - 1 = 0 then i else closingParen cs (parenDepth - 1) (Suc i))
      else closingParen cs parenDepth (Suc i))"

text \<open>The permission patterns: prefix and whether several comma-separated values may follow.\<close>

definition permissionPatterns :: "(string \<times> bool) list" where
  "permissionPatterns =
     [(''hasPermission('', False),
      (''AllFeaturesOf('', True),
      (''AnyFeaturesOf('', True),
      (''RequirePermissions('', True),
      (''RequireAnyPermission('', True)]"

text \<open>One iteration of the loop over the patterns: the permissions this pattern contributes.\<close>

definition permissionsOfPattern :: "string \<Rightarrow> string \<times> bool \<Rightarrow> string list" where
  "permissionsOfPattern mw pattern =
     (case Index mw (fst pattern) of
        None \<Rightarrow> []
      | Some idx \<Rightarrow>
          (let rest = drop (idx + length (fst pattern)) mw;
               e = closingParen rest 1 0
           in if 0 < e then
                (let args = take e rest
                 in if snd pattern
                    then filter (\<lambda>cleaned. cleaned \<noteq> []) (map cleanPermissionArg (Split args CHR '',''))
                    else (let cleaned = cleanPermissionArg args
                          in if cleaned \<noteq> [] then [cleaned] else []))
              else []))"

definition extractPermissionsFromMiddleware :: "string \<Rightarrow> string list" where
  "extractPermissionsFromMiddleware mw = concat (map (permissionsOfPattern mw) permissionPatterns)"

text \<open>
  The loop of \<open>extractSecurity\<close> over the middleware chain, with its two accumulators.
  \<open>None\<close> is the early return taken at a \<open>NotAuthenticated\<close> entry.
\<close>

fun securityLoop :: "string list \<Rightarrow> string list \<Rightarrow> bool \<Rightarrow> (string list \<times> bool) option" where
  "securityLoop [] scopes hasAuth = Some (scopes, hasAuth)"
| "securityLoop (mw # rest) scopes hasAuth =
     (if Contains mw ''NotAuthenticated'' then None
      else securityLoop rest
             (scopes @ extractPermissionsFromMiddleware mw)
             (hasAuth \<or> Contains mw ''Authenticated'' \<or> Contains mw ''IsAuthenticated''))"

definition extractSecurity :: "string list \<Rightarrow> SecurityRequirement list" where
  "extractSecurity middleware =
     (case securityLoop middleware [] False of
        None \<Rightarrow> []
      | Some (scopes, hasAuth) \<Rightarrow>
          (if hasAuth then
             (if scopes \<noteq> [] then [\<lparr>Name = ''permissions'', Scopes = scopes\<rparr>]
              else [\<lparr>Name = ''bearerAuth'', Scopes = []\<rparr>])
           else []))"

section \<open>Syntax trees\<close>

text \<open>
  The fragment of \<open>go/ast\<close> the analyzer distinguishes. Every expression kind it does
  not look into (index expressions, binary expressions, function types, ...) is
  \<open>OtherExpr\<close>, which also stands for an absent expression; a function literal carries
  no data because only its kind is inspected. A \<open>BasicLit\<close> holds the token kind and the
  literal's source text (\<open>token.INT\<close> is written \<open>INTLIT\<close>), a \<open>CompositeLit\<close> its type, a \<open>UnaryExpr\<close> whether the operator
  is \<open>&\<close>. A struct field has its names, its type, the source text of its tag and the
  comments of its doc group, both optional.
\<close>

datatype tokenKind = INTLIT | FLOAT | IMAG | CHAR | STRING

datatype expr =
    is_Ident: Ident string
  | is_BasicLit: BasicLit tokenKind string
  | is_SelectorExpr: SelectorExpr expr string
  | is_CallExpr: CallExpr expr "expr list"
  | is_FuncLit: FuncLit
  | ArrayType expr
  | MapType expr expr
  | StarExpr expr
  | StructType "field list"
  | UnaryExpr bool expr
  | CompositeLit expr
  | OtherExpr
and field =
    Field (fieldNames: "string list") (fieldType: expr) (fieldTag: "string option")
          (fieldDoc: "string list option")

text \<open>
  General declarations with their keyword (\<open>token.CONST\<close>, \<open>token.TYPE\<close>, \<open>token.VAR\<close>,
  \<open>token.IMPORT\<close>), the comments of their doc group and their specifications.
\<close>

datatype declTok = ConstDecl | TypeDecl | VarDecl | ImportDecl

datatype spec =
    TypeSpec string expr
  | ValueSpec "string list" "expr option" "expr list"
  | ImportSpec

datatype GenDecl = GenDecl (Tok: declTok) (Doc: "string list option") (Specs: "spec list")

text \<open>
  A walk of \<open>ast.Inspect\<close> is taken as the sequence of the nodes it visits, in its
  order. The analyzer looks at assignment statements (with whether the token is \<open>:=\<close>),
  at declaration statements and at expressions; every other node is \<open>OtherNode\<close>.
\<close>

datatype node =
    AssignStmt bool "expr list" "expr list"
  | DeclStmt GenDecl
  | ExprNode expr
  | OtherNode

text \<open>
  A function declaration: its name, the comments of its doc group, the types of its
  receiver fields (none for a plain function) and the nodes of its body, if it has one.
\<close>

record FuncDecl =
  funcName :: string
  funcDoc :: "string list option"
  funcRecv :: "expr list"
  funcBody :: "node list option"

subsection \<open>\<open>strconv.Unquote\<close> on string literals\<close>

text \<open>
  The value a Go string literal denotes. A raw literal loses its back quotes and every
  carriage return; an interpreted literal loses its quotes and has its escape sequences
  replaced. \<open>None\<close> is \<open>strconv.ErrSyntax\<close>. Bytes outside ASCII are copied, which is
  what the library does on valid UTF-8, and the Go scanner accepts no other source.
\<close>

definition unhex :: "char \<Rightarrow> nat option" where
  "unhex c =
     (let n = of_char c :: nat
      in if 48 \<le> n \<and> n \<le> 57 then Some (n - 48)
         else if 97 \<le> n \<and> n \<le> 102 then Some (n - 97 + 10)
         else if 65 \<le> n \<and> n \<le> 70 then Some (n - 65 + 10)
         else None)"

fun hexValue :: "string \<Rightarrow> nat \<Rightarrow> nat option" where
  "hexValue [] v = Some v"
| "hexValue (c # cs) v = (case unhex c of None \<Rightarrow> None | Some x \<Rightarrow> hexValue cs (16 * v + x))"

fun octalValue :: "string \<Rightarrow> nat \<Rightarrow> nat option" where
  "octalValue [] v = Some v"
| "octalValue (c # cs) v =
     (let n = of_char c :: nat
      in if 48 \<le> n \<and> n \<le> 55 then octalValue cs (8 * v + (n - 48)) else None)"

text \<open>\<open>utf8.ValidRune\<close> and \<open>utf8.AppendRune\<close>.\<close>

definition ValidRune :: "nat \<Rightarrow> bool" where
  "ValidRune v = (v < 0xD800 \<or> (0xDFFF < v \<and> v \<le> 0x10FFFF))"

definition AppendRune :: "nat \<Rightarrow> string" where
  "AppendRune v =
     (if v < 0x80 then [char_of v]
      else if v < 0x800 then [char_of (0xC0 + v div 64), char_of (0x80 + v mod 64)]
      else if v < 0x10000 then
        [char_of (0xE0 + v div 4096), char_of (0x80 + (v div 64) mod 64), char_of (0x80 + v mod 64)]
      else
        [char_of (0xF0 + v div 262144), char_of (0x80 + (v div 4096) mod 64),
         char_of (0x80 + (v div 64) mod 64), char_of (0x80 + v mod 64)])"

text \<open>
  One escape sequence, after its backslash: the bytes it stands for and how many bytes of
  the literal it takes.
\<close>

definition unquoteEscape :: "string \<Rightarrow> (string \<times> nat) option" where
  "unquoteEscape s =
     (case s of
        [] \<Rightarrow> None
      | c # rest \<Rightarrow>
          if c = CHR ''a'' then Some ([CHR 0x07], 1)
          else if c = CHR ''b'' then Some ([CHR 0x08], 1)
          else if c = CHR ''f'' then Some ([CHR 0x0C], 1)
          else if c = CHR ''n'' then Some ([CHR 0x0A], 1)
          else if c = CHR ''r'' then Some ([CHR 0x0D], 1)
          else if c = CHR ''t'' then Some ([CHR 0x09], 1)
          else if c = CHR ''v'' then Some ([CHR 0x0B], 1)
          else if c = CHR ''x'' then
            (if length rest < 2 then None
             else (case hexValue (take 2 rest) 0 of None \<Rightarrow> None
                   | Some v \<Rightarrow> Some ([char_of v], 3)))
          else if c = CHR ''u'' then
            (if length rest < 4 then None
             else (case hexValue (take 4 rest) 0 of None \<Rightarrow> None
                   | Some v \<Rightarrow> if ValidRune v then Some (AppendRune v, 5) else None))
          else if c = CHR ''U'' then
            (if length rest < 8 then None
             else (case hexValue (take 8 rest) 0 of None \<Rightarrow> None
                   | Some v \<Rightarrow> if ValidRune v then Some (AppendRune v, 9) else None))
          else if 48 \<le> (of_char c :: nat) \<and> (of_char c :: nat) \<le> 55 then
            (if length rest < 2 then None
             else (case octalValue (take 2 rest) (of_char c - 48) of None \<Rightarrow> None
                   | Some v \<Rightarrow> if 255 < v then None else Some ([char_of v], 3)))
          else if c = CHR 0x5C then Some ([CHR 0x5C], 1)
          else if c = CHR 0x22 then Some ([CHR 0x22], 1)
          else None)"

text \<open>
  The body of an interpreted literal, after the opening quote: up to the closing quote,
  which has to be the last byte.
\<close>

function unquoteBody :: "string \<Rightarrow> string option" where
  "unquoteBody [] = None"
| "unquoteBody (c # rest) =
     (if c = CHR 0x22 then (if rest = [] then Some [] else None)
      else if c = CHR 0x0A then None
      else if c \<noteq> CHR 0x5C then map_option (\<lambda>out. c # out) (unquoteBody rest)
      else (case unquoteEscape rest of
              None \<Rightarrow> None
            | Some (bytes, n) \<Rightarrow> map_option (\<lambda>out. bytes @ out) (unquoteBody (drop n rest))))"
  by pat_completeness auto
termination
  by (relation "measure length") auto

definition Unquote :: "string \<Rightarrow> string option" where
  "Unquote s =
     (if length s < 2 then None
      else if hd s = CHR 0x60 then
        (if Index (tl s) [CHR 0x60] = Some (length s - 2)
         then Some (filter (\<lambda>c. c \<noteq> CHR 0x0D) (take (length s - 2) (tl s))) else None)
      else if hd s = CHR 0x22 then unquoteBody (tl s)
      else None)"

section \<open>Route Graph Builder\<close>

text \<open>\<open>EndpointInfo\<close>: one extracted HTTP endpoint.\<close>

record EndpointInfo =
  Path :: string
  Method :: string
  Handler :: string
  MSName :: string
  Middleware :: "string list"

text \<open>
  \<open>parseContext\<close>: the state of one file's walk. The file set and the verbose flag only
  serve diagnostics and are left out.
\<close>

record parseContext =
  groupPaths :: "string \<rightharpoonup> string"
  groupMiddleware :: "string \<rightharpoonup> string list"
  variables :: "string \<rightharpoonup> string"
  msName :: string

definition isHTTPMethod :: "string \<Rightarrow> bool" where
  "isHTTPMethod method =
     (method \<in> set [''Get'', ''Post'', ''Put'', ''Delete'', ''Patch'', ''Head'', ''Options''])"

fun extractStringLiteral :: "expr \<Rightarrow> string" where
  "extractStringLiteral (BasicLit kind val) =
     (if kind = STRING then (case Unquote val of Some v \<Rightarrow> v | None \<Rightarrow> []) else [])"
| "extractStringLiteral _ = []"

fun extractHandlerName :: "expr \<Rightarrow> string" where
  "extractHandlerName (Ident name) = name"
| "extractHandlerName (CallExpr (Ident name) args) = name"
| "extractHandlerName (CallExpr (SelectorExpr x sel) args) = sel"
| "extractHandlerName (SelectorExpr x sel) = sel"
| "extractHandlerName FuncLit = ''<inline>''"
| "extractHandlerName _ = []"

fun extractExpressionAsString :: "expr \<Rightarrow> string" where
  "extractExpressionAsString (Ident name) = name"
| "extractExpressionAsString (SelectorExpr x sel) = extractExpressionAsString x @ ''.'' @ sel"
| "extractExpressionAsString (CallExpr (SelectorExpr x sel) args) =
     (extractExpressionAsString x @ ''.'' @ sel) @ ''()''"
| "extractExpressionAsString (CallExpr (Ident name) args) = name @ ''()''"
| "extractExpressionAsString _ = ''?''"

fun extractArgument :: "expr \<Rightarrow> string" where
  "extractArgument (BasicLit kind val) = val"
| "extractArgument (Ident name) = name"
| "extractArgument (SelectorExpr x sel) = extractExpressionAsString (SelectorExpr x sel)"
| "extractArgument _ = ''?''"

fun extractEnhancedMiddlewareName :: "parseContext \<Rightarrow> expr \<Rightarrow> string" where
  "extractEnhancedMiddlewareName ctx (Ident name) =
     (case variables ctx name of Some varDef \<Rightarrow> varDef | None \<Rightarrow> name)"
| "extractEnhancedMiddlewareName ctx (CallExpr (Ident name) args) =
     (if 0 < length args then name @ ''('' @ Join (map extractArgument args) '', '' @ '')''
      else name @ ''()'')"
| "extractEnhancedMiddlewareName ctx (CallExpr (SelectorExpr x sel) args) =
     (if 0 < length args
      then extractExpressionAsString (SelectorExpr x sel) @ ''('' @
           Join (map extractArgument args) '', '' @ '')''
      else extractExpressionAsString (SelectorExpr x sel) @ ''()'')"
| "extractEnhancedMiddlewareName ctx (SelectorExpr x sel) =
     extractExpressionAsString (SelectorExpr x sel)"
| "extractEnhancedMiddlewareName ctx _ = []"

text \<open>The names of a run of middleware arguments, those without a name skipped.\<close>

definition middlewareNames :: "parseContext \<Rightarrow> expr list \<Rightarrow> string list" where
  "middlewareNames ctx args =
     filter (\<lambda>mw. mw \<noteq> []) (map (extractEnhancedMiddlewareName ctx) args)"

text \<open>\<open>normalizePath\<close> of the route builder: a group path joined with an endpoint path.\<close>

definition normalizePath :: "string \<Rightarrow> string \<Rightarrow> string" where
  "normalizePath groupPath endpointPath =
     (if groupPath = [] \<and> endpointPath = [] then ''/''
      else if groupPath = [] then endpointPath
      else if endpointPath = [] then groupPath
      else
        (let groupPath' = TrimSuffix groupPath ''/'';
             endpointPath' =
               (if \<not> HasPrefix endpointPath ''/'' then ''/'' @ endpointPath else endpointPath)
         in if groupPath' = [] \<or> groupPath' = ''/'' then endpointPath'
            else groupPath' @ endpointPath'))"

text \<open>
  \<open>handleAssignment\<close> on an assignment statement with the given left and right sides.
  It returns the updated context.
\<close>

definition trackGroup :: "parseContext \<Rightarrow> string \<Rightarrow> expr \<Rightarrow> expr list \<Rightarrow> parseContext" where
  "trackGroup ctx varName x args =
     (if 1 \<le> length args then
        (let groupPath = extractStringLiteral (hd args)
         in if groupPath \<noteq> [] then
              (let parent =
                     (case x of
                        Ident name \<Rightarrow>
                          (case groupPaths ctx name of
                             Some parentPath \<Rightarrow>
                               (parentPath @ groupPath,
                                (case groupMiddleware ctx name of
                                   Some parentMW \<Rightarrow> parentMW | None \<Rightarrow> []))
                           | None \<Rightarrow> (groupPath, []))
                      | _ \<Rightarrow> (groupPath, []));
                   groupMW = snd parent @ middlewareNames ctx (tl args)
               in ctx\<lparr>groupPaths := (groupPaths ctx)(varName \<mapsto> fst parent),
                       groupMiddleware := (groupMiddleware ctx)(varName \<mapsto> groupMW)\<rparr>)
            else ctx)
      else ctx)"

definition handleAssignment :: "parseContext \<Rightarrow> expr list \<Rightarrow> expr list \<Rightarrow> parseContext" where
  "handleAssignment ctx lhs rhs =
     (if length lhs \<noteq> 1 \<or> length rhs \<noteq> 1 then ctx
      else (case hd lhs of
              Ident varName \<Rightarrow>
                (case hd rhs of
                   CallExpr fn args \<Rightarrow>
                     (case fn of
                        SelectorExpr x sel \<Rightarrow>
                          (let ctx' = (if sel = ''Group'' then trackGroup ctx varName x args else ctx)
                           in ctx'\<lparr>variables :=
                                     (variables ctx')(varName \<mapsto> extractExpressionAsString x @ ''.'' @ sel)\<rparr>)
                      | _ \<Rightarrow> ctx)
                 | SelectorExpr x sel \<Rightarrow>
                     ctx\<lparr>variables :=
                           (variables ctx)(varName \<mapsto> extractExpressionAsString (SelectorExpr x sel))\<rparr>
                 | _ \<Rightarrow> ctx)
            | _ \<Rightarrow> ctx))"

text \<open>
  The handler search of \<open>parseHTTPMethodCall\<close>: from index \<open>i\<close> down to 1, the first
  argument with a handler name, with its index.
\<close>

fun findHandler :: "expr list \<Rightarrow> nat \<Rightarrow> (string \<times> nat) option" where
  "findHandler args 0 = None"
| "findHandler args (Suc i) =
     (if extractHandlerName (args ! Suc i) \<noteq> []
      then Some (extractHandlerName (args ! Suc i), Suc i)
      else findHandler args i)"

text \<open>\<open>parseHTTPMethodCall\<close> on a call expression; \<open>None\<close> is the \<open>nil\<close> result.\<close>

fun parseHTTPMethodCall :: "parseContext \<Rightarrow> expr \<Rightarrow> EndpointInfo option" where
  "parseHTTPMethodCall ctx (CallExpr (SelectorExpr x method) args) =
     (if \<not> isHTTPMethod method then None
      else if length args < 2 then None
      else
        (let path0 = extractStringLiteral (hd args);
             path = (if path0 = [] then ''/'' else path0);
             groupPath =
               (case x of Ident name \<Rightarrow>
                  (case groupPaths ctx name of Some p \<Rightarrow> p | None \<Rightarrow> [])
                | _ \<Rightarrow> []);
             groupMW =
               (case x of Ident name \<Rightarrow>
                  (case groupMiddleware ctx name of Some m \<Rightarrow> m | None \<Rightarrow> [])
                | _ \<Rightarrow> []);
             fullPath = normalizePath groupPath path
         in (case findHandler args (length args - 1) of
               None \<Rightarrow> None
             | Some (handler, handlerIndex) \<Rightarrow>
                 Some \<lparr>Path = fullPath, Method = method, Handler = handler,
                       MSName = msName ctx,
                       Middleware =
                         groupMW @ middlewareNames ctx (take (handlerIndex - 1) (tl args))\<rparr>)))"
| "parseHTTPMethodCall ctx _ = None"

text \<open>
  \<open>parseControllerFile\<close> over the nodes of the file. The context starts with empty
  tables.
\<close>

definition newParseContext :: "string \<Rightarrow> parseContext" where
  "newParseContext name =
     \<lparr>groupPaths = Map.empty, groupMiddleware = Map.empty, variables = Map.empty, msName = name\<rparr>"

fun inspectNode :: "parseContext \<times> EndpointInfo list \<Rightarrow> node \<Rightarrow> parseContext \<times> EndpointInfo list" where
  "inspectNode (ctx, endpoints) (AssignStmt tok lhs rhs) =
     (handleAssignment ctx lhs rhs, endpoints)"
| "inspectNode (ctx, endpoints) (ExprNode (CallExpr fn args)) =
     (case parseHTTPMethodCall ctx (CallExpr fn args) of
        Some endpoint \<Rightarrow> (ctx, endpoints @ [endpoint])
      | None \<Rightarrow> (ctx, endpoints))"
| "inspectNode (ctx, endpoints) _ = (ctx, endpoints)"

definition parseControllerFile :: "string \<Rightarrow> node list \<Rightarrow> EndpointInfo list" where
  "parseControllerFile name nodes = snd (foldl inspectNode (newParseContext name, []) nodes)"

section \<open>Spec Assembler: paths\<close>

text \<open>\<open>OpenAPISpec.normalizePath\<close>: \<open>:param\<close> segments become \<open>{param}\<close>.\<close>

definition OpenAPISpec_normalizePath :: "string \<Rightarrow> string" where
  "OpenAPISpec_normalizePath path =
     Join (map (\<lambda>part. if HasPrefix part '':'' then ''{'' @ TrimPrefix part '':'' @ ''}'' else part)
               (Split path CHR ''/''))
          ''/''"

section \<open>A controller file with nested groups\<close>

text \<open>
  The statements
  \<^verbatim>\<open>root := app.Group("/api", auth)
  a := root.Group("/v1")
  b := a.Group("/users")
  b.Get("/:id", mw, c.getUser)\<close>
  as the contexts after each assignment and the endpoint call.
\<close>

definition apiRootContext :: parseContext where
  "apiRootContext =
     handleAssignment (newParseContext ''ms_users'') [Ident ''root'']
       [CallExpr (SelectorExpr (Ident ''app'') ''Group'') [BasicLit STRING ''\"/api\"'', Ident ''auth'']]"

definition apiUsersContext :: parseContext where
  "apiUsersContext =
     handleAssignment
       (handleAssignment apiRootContext [Ident ''a'']
          [CallExpr (SelectorExpr (Ident ''root'') ''Group'') [BasicLit STRING ''\"/v1\"'']])
       [Ident ''b'']
       [CallExpr (SelectorExpr (Ident ''a'') ''Group'') [BasicLit STRING ''\"/users\"'']]"

definition getUserCall :: expr where
  "getUserCall =
     CallExpr (SelectorExpr (Ident ''b'') ''Get'')
       [BasicLit STRING ''\"/:id\"'', Ident ''mw'', SelectorExpr (Ident ''c'') ''getUser'']"

section \<open>Schemas\<close>

text \<open>
  \<open>SchemaSpec\<close>, the JSON-schema node. Go maps are association lists with one entry per
  key, a pointer that may be \<open>nil\<close> is an option, and an \<open>interface{}\<close> enum value is a
  string or an integer. The bounds and the pattern, which the analyzer never sets, are
  left out. Record fields carry a short prefix where Go uses one field name in several
  structs.
\<close>

datatype enumValue = EnumString string | EnumInt int

datatype SchemaSpec = SchemaSpec
  (Type: string) (Format: string) (Description: string) (Ref: string)
  (Properties: "(string \<times> SchemaSpec) list") (Required: "string list")
  (Items: "SchemaSpec option") (Enum: "enumValue list")
  (AdditionalProperties: "SchemaSpec option")

definition emptySchema :: SchemaSpec where
  "emptySchema = SchemaSpec [] [] [] [] [] [] None [] None"

definition typeSchema :: "string \<Rightarrow> SchemaSpec" where
  "typeSchema t = SchemaSpec t [] [] [] [] [] None [] None"

definition formatSchema :: "string \<Rightarrow> string \<Rightarrow> SchemaSpec" where
  "formatSchema t f = SchemaSpec t f [] [] [] [] None [] None"

definition refSchema :: "string \<Rightarrow> SchemaSpec" where
  "refSchema name = SchemaSpec [] [] [] (''#/components/schemas/'' @ name) [] [] None [] None"

definition errorSchema :: SchemaSpec where
  "errorSchema = SchemaSpec ''object'' [] [] [] [(''error'', typeSchema ''string'')] [] None [] None"

definition withDescription :: "SchemaSpec \<Rightarrow> string \<Rightarrow> SchemaSpec" where
  "withDescription s d =
     SchemaSpec (Type s) (Format s) d (Ref s) (Properties s) (Required s) (Items s) (Enum s)
       (AdditionalProperties s)"

definition withEnum :: "SchemaSpec \<Rightarrow> enumValue list \<Rightarrow> SchemaSpec" where
  "withEnum s vs =
     SchemaSpec (Type s) (Format s) (Description s) (Ref s) (Properties s) (Required s) (Items s)
       vs (AdditionalProperties s)"

text \<open>Store under a key of a Go map: an existing entry is replaced, a new one is added.\<close>

fun mapPut :: "('k \<times> 'v) list \<Rightarrow> 'k \<Rightarrow> 'v \<Rightarrow> ('k \<times> 'v) list" where
  "mapPut [] k v = [(k, v)]"
| "mapPut ((k', v') # m) k v = (if k' = k then (k, v) # m else (k', v') # mapPut m k v)"

definition withProperty :: "SchemaSpec \<Rightarrow> string \<Rightarrow> SchemaSpec \<Rightarrow> SchemaSpec" where
  "withProperty s name p =
     SchemaSpec (Type s) (Format s) (Description s) (Ref s) (mapPut (Properties s) name p)
       (Required s) (Items s) (Enum s) (AdditionalProperties s)"

definition withRequired :: "SchemaSpec \<Rightarrow> string \<Rightarrow> SchemaSpec" where
  "withRequired s name =
     SchemaSpec (Type s) (Format s) (Description s) (Ref s) (Properties s) (Required s @ [name])
       (Items s) (Enum s) (AdditionalProperties s)"

section \<open>Type/Schema Resolver\<close>

text \<open>\<open>resolveBuiltInType\<close>: built-in and well-known types; the empty schema otherwise.\<close>

definition resolveBuiltInType :: "string \<Rightarrow> SchemaSpec" where
  "resolveBuiltInType typeName =
     (if typeName = ''string'' then typeSchema ''string''
      else if typeName \<in> set [''int'', ''int8'', ''int16'', ''int32'', ''int64'']
        then formatSchema ''integer'' ''int64''
      else if typeName \<in> set [''uint'', ''uint8'', ''uint16'', ''uint32'', ''uint64'']
        then formatSchema ''integer'' ''uint64''
      else if typeName = ''float32'' then formatSchema ''number'' ''float''
      else if typeName = ''float64'' then formatSchema ''number'' ''double''
      else if typeName = ''bool'' then typeSchema ''boolean''
      else if typeName = ''object'' then typeSchema ''object''
      else if typeName \<in> set [''time.Time'', ''Time''] then formatSchema ''string'' ''date-time''
      else if typeName \<in> set [''uid.UID'', ''UID''] then formatSchema ''string'' ''uuid''
      else emptySchema)"

definition mapUnderlyingTypeToOpenAPI :: "string \<Rightarrow> string" where
  "mapUnderlyingTypeToOpenAPI goType =
     (if goType = ''string'' then ''string''
      else if goType \<in> set [''int'', ''int8'', ''int16'', ''int32'', ''int64''] then ''integer''
      else if goType \<in> set [''uint'', ''uint8'', ''uint16'', ''uint32'', ''uint64''] then ''integer''
      else if goType \<in> set [''float32'', ''float64''] then ''number''
      else if goType = ''bool'' then ''boolean''
      else ''string'')"

text \<open>\<open>strings.LastIndex\<close> for a one-byte pattern.\<close>

definition LastIndex :: "string \<Rightarrow> char \<Rightarrow> nat option" where
  "LastIndex s c =
     (case Index (rev s) [c] of None \<Rightarrow> None | Some i \<Rightarrow> Some (length s - 1 - i))"

text \<open>
  \<open>cleanTypeName\<close> (the resolver's and the analyzer's are the same function): the type
  argument of a generic form, then the name after the last dot.
\<close>

function cleanTypeName :: "string \<Rightarrow> string" where
  "cleanTypeName typeName =
     (case (if Contains typeName ''['' then
              (case (Index typeName ''['', LastIndex typeName CHR '']'') of
                 (Some start, Some e) \<Rightarrow>
                   if start < e
                   then Some (TrimPrefix (take (e - (start + 1)) (drop (start + 1) typeName)) ''[]'')
                   else None
               | _ \<Rightarrow> None)
            else None) of
        Some innerType \<Rightarrow> cleanTypeName innerType
      | None \<Rightarrow>
          (let parts = Split typeName CHR ''.''
           in if 1 < length parts then last parts else typeName))"
  by pat_completeness auto
termination
proof (relation "measure length", goal_cases)
  case 1
  then show ?case by simp
next
  case (2 typeName innerType)
  then obtain start e where "start < e"
    and i: "innerType = TrimPrefix (take (e - (start + 1)) (drop (start + 1) typeName)) ''[]''"
    and l: "LastIndex typeName CHR '']'' = Some e"
    by (auto split: if_splits option.splits)
  from l have "typeName \<noteq> []" by (auto simp: LastIndex_def)
  moreover have "length innerType \<le> length typeName - (start + 1)"
    unfolding i by (auto simp: TrimPrefix_def)
  ultimately show ?case by (cases typeName) auto
qed

declare cleanTypeName.simps [simp del]

subsection \<open>Struct tags and comments\<close>

text \<open>\<open>strings.Trim(s, "`")\<close>: every leading and trailing back quote removed.\<close>

definition TrimBackquotes :: "string \<Rightarrow> string" where
  "TrimBackquotes s =
     rev (dropWhile (\<lambda>c. c = CHR 0x60) (rev (dropWhile (\<lambda>c. c = CHR 0x60) s)))"

text \<open>
  The scan of \<open>reflect.StructTag.Lookup\<close> over a quoted value, from index 1: the index
  where it stops, a backslash skipping the byte after it.
\<close>

fun quotedEnd :: "string \<Rightarrow> nat \<Rightarrow> nat" where
  "quotedEnd [] i = i"
| "quotedEnd [c] i = (if c = CHR 0x22 then i else if c = CHR 0x5C then i + 2 else i + 1)"
| "quotedEnd (c # d # cs) i =
     (if c = CHR 0x22 then i
      else if c = CHR 0x5C then quotedEnd cs (i + 2)
      else quotedEnd (d # cs) (i + 1))"

text \<open>
  \<open>reflect.StructTag.Lookup\<close>: the conventional \<open>key:"value"\<close> pairs, read from the
  left; the scan gives up at the first malformed pair.
\<close>

function StructTag_Lookup :: "string \<Rightarrow> string \<Rightarrow> string option" where
  "StructTag_Lookup tag0 key =
     (let tag = dropWhile (\<lambda>c. c = CHR '' '') tag0;
          i = length (takeWhile (\<lambda>c. 32 < (of_char c :: nat) \<and> c \<noteq> CHR '':'' \<and>
                                      c \<noteq> CHR 0x22 \<and> c \<noteq> CHR 0x7F) tag)
      in if tag = [] then None
         else if i = 0 \<or> length tag \<le> i + 1 \<or> tag ! i \<noteq> CHR '':'' \<or> tag ! (i + 1) \<noteq> CHR 0x22
         then None
         else
           (let name = take i tag;
                tag1 = drop (i + 1) tag;
                j = quotedEnd (tl tag1) 1
            in if length tag1 \<le> j then None
               else if key = name then Unquote (take (j + 1) tag1)
               else StructTag_Lookup (drop (j + 1) tag1) key))"
  by pat_completeness auto
termination
proof (relation "measure (\<lambda>(tag0, key). length tag0)", goal_cases)
  case 1
  then show ?case by simp
next
  case (2 tag0 key tag i name tag1 j)
  have "length tag \<le> length tag0"
    unfolding 2(1) by (rule length_dropWhile_le)
  then show ?case using 2 by auto
qed

declare StructTag_Lookup.simps [simp del]

definition StructTag_Get :: "string \<Rightarrow> string \<Rightarrow> string" where
  "StructTag_Get tag key = (case StructTag_Lookup tag key of Some v \<Rightarrow> v | None \<Rightarrow> [])"

text \<open>\<open>extractComments\<close>: the text of each comment of a group, the empty ones dropped.\<close>

definition commentText :: "string \<Rightarrow> string" where
  "commentText c =
     TrimSpace (TrimSuffix (TrimSpace (TrimPrefix (TrimSpace (TrimPrefix c ''//'')) ''/*'')) ''*/'')"

definition extractComments :: "string list \<Rightarrow> string list" where
  "extractComments commentGroup = filter (\<lambda>t. t \<noteq> []) (map commentText commentGroup)"

subsection \<open>The models directory\<close>

text \<open>
  What the resolver reads from disk. A source file is its path below the models root,
  with \<open>/\<close> between the components, and the general declarations \<open>ast.Inspect\<close> visits
  in it, in its order; \<open>None\<close> is a file the parser rejects. The tree is the list of its
  files in the order of \<open>filepath.Walk\<close>.
\<close>

record modelFile =
  filePath :: string
  fileDecls :: "GenDecl list option"

text \<open>
  \<open>findGoFiles\<close>: the Go files below a directory of the models root that are not tests.
  The empty directory name is the root itself.
\<close>

definition findGoFiles :: "modelFile list \<Rightarrow> string \<Rightarrow> modelFile list" where
  "findGoFiles tree dir =
     filter (\<lambda>f. (dir = [] \<or> HasPrefix (filePath f) (dir @ ''/'')) \<and>
                 HasSuffix (filePath f) ''.go'' \<and> \<not> HasSuffix (filePath f) ''_test.go'')
            tree"

definition mapPackageNameToDir :: "string \<Rightarrow> string" where
  "mapPackageNameToDir pkgName =
     (let parts = Split pkgName CHR ''_''
      in if 1 < length parts \<and> last parts = ''models'' then Join (butlast parts) ''_''
         else pkgName)"

text \<open>
  The search of \<open>parseFileForType\<close> for the declaration: in each general declaration the
  first type specification of that name counts, and a later declaration replaces an
  earlier one.
\<close>

fun firstTypeSpec :: "spec list \<Rightarrow> string \<Rightarrow> expr option" where
  "firstTypeSpec [] typeName = None"
| "firstTypeSpec (TypeSpec name t # specs) typeName =
     (if name = typeName then Some t else firstTypeSpec specs typeName)"
| "firstTypeSpec (_ # specs) typeName = firstTypeSpec specs typeName"

fun findTypeSpec :: "GenDecl list \<Rightarrow> string \<Rightarrow> (expr \<times> string list option) option
                       \<Rightarrow> (expr \<times> string list option) option" where
  "findTypeSpec [] typeName target = target"
| "findTypeSpec (d # ds) typeName target =
     findTypeSpec ds typeName
       (case firstTypeSpec (Specs d) typeName of
          Some t \<Rightarrow> Some (t, Doc d)
        | None \<Rightarrow> target)"

text \<open>\<open>strconv.Atoi\<close> on the text of an integer literal: decimal digits within 64 bits.\<close>

definition Atoi :: "string \<Rightarrow> int option" where
  "Atoi s =
     (if s \<noteq> [] \<and> (\<forall>c\<in>set s. 48 \<le> (of_char c :: nat) \<and> (of_char c :: nat) \<le> 57) \<and>
         foldl (\<lambda>v c. 10 * v + (of_char c - 48)) (0 :: nat) s < 2 ^ 63
      then Some (int (foldl (\<lambda>v c. 10 * v + (of_char c - 48)) (0 :: nat) s))
      else None)"

text \<open>\<open>tryExtractEnumValues\<close>: the literal values of the constants typed with the enum.\<close>

fun enumValuesOf :: "expr list \<Rightarrow> enumValue list" where
  "enumValuesOf [] = []"
| "enumValuesOf (BasicLit kind val # vs) =
     (if kind = STRING then
        (case Unquote val of Some u \<Rightarrow> EnumString u # enumValuesOf vs | None \<Rightarrow> enumValuesOf vs)
      else if kind = INTLIT then
        (case Atoi val of Some n \<Rightarrow> EnumInt n # enumValuesOf vs | None \<Rightarrow> enumValuesOf vs)
      else enumValuesOf vs)"
| "enumValuesOf (_ # vs) = enumValuesOf vs"

fun enumValuesOfSpecs :: "spec list \<Rightarrow> string \<Rightarrow> enumValue list" where
  "enumValuesOfSpecs [] typeName = []"
| "enumValuesOfSpecs (ValueSpec names (Some (Ident t)) vals # specs) typeName =
     (if t = typeName then enumValuesOf vals @ enumValuesOfSpecs specs typeName
      else enumValuesOfSpecs specs typeName)"
| "enumValuesOfSpecs (_ # specs) typeName = enumValuesOfSpecs specs typeName"

definition tryExtractEnumValues :: "GenDecl list \<Rightarrow> string \<Rightarrow> enumValue list \<times> bool" where
  "tryExtractEnumValues fileNode typeName =
     (let enumValues =
            concat (map (\<lambda>d. if Tok d = ConstDecl then enumValuesOfSpecs (Specs d) typeName else [])
                        fileNode)
      in (enumValues, 0 < length enumValues))"

subsection \<open>Resolution\<close>

text \<open>
  \<open>TypeResolver\<close>: the schema table, keyed by clean type name, and the set of type names
  marked as processed. The project root and the models directory are the tree the
  functions take; the verbose flag only serves diagnostics.
\<close>

record TypeResolver =
  schemas :: "(string \<times> SchemaSpec) list"
  processed :: "string set"

definition NewTypeResolver :: TypeResolver where
  "NewTypeResolver = \<lparr>schemas = [], processed = {}\<rparr>"

text \<open>
  \<open>ResolveType\<close> calls itself through \<open>findAndParseType\<close>, \<open>parseFileForType\<close>,
  \<open>parseStruct\<close>, \<open>parseField\<close> and \<open>parseFieldType\<close>. The functions in between take
  the recursive call as their first argument, and \<open>ResolveType\<close> below ties the knot
  with a bound on the depth of the recursion: \<open>None\<close> is a call that has not returned
  within the bound. \<open>ResolveType\<close> never returns an error, so neither do the calls here.
\<close>

type_synonym resolveFn = "TypeResolver \<Rightarrow> string \<Rightarrow> (SchemaSpec \<times> TypeResolver) option"

fun parseFieldType :: "resolveFn \<Rightarrow> TypeResolver \<Rightarrow> expr \<Rightarrow> (SchemaSpec \<times> TypeResolver) option" where
  "parseFieldType rt r (Ident name) =
     (if Type (resolveBuiltInType name) \<noteq> [] then Some (resolveBuiltInType name, r)
      else rt r name)"
| "parseFieldType rt r (SelectorExpr (Ident pkg) sel) =
     (let typeName = pkg @ ''.'' @ sel
      in if Type (resolveBuiltInType typeName) \<noteq> [] then Some (resolveBuiltInType typeName, r)
         else rt r typeName)"
| "parseFieldType rt r (ArrayType elt) =
     (case parseFieldType rt r elt of
        None \<Rightarrow> None
      | Some (itemSchema, r') \<Rightarrow>
          Some (SchemaSpec ''array'' [] [] [] [] [] (Some itemSchema) [] None, r'))"
| "parseFieldType rt r (MapType k v) =
     (case parseFieldType rt r v of
        None \<Rightarrow> None
      | Some (valueSchema, r') \<Rightarrow>
          Some (SchemaSpec ''object'' [] [] [] [] [] None [] (Some valueSchema), r'))"
| "parseFieldType rt r (StarExpr x) = parseFieldType rt r x"
| "parseFieldType rt r _ = Some (typeSchema ''object'', r)"

text \<open>What \<open>parseField\<close> reads from the tag: the JSON name, \<open>omitempty\<close> and \<open>required\<close>.\<close>

definition fieldTagInfo :: "field \<Rightarrow> string \<times> bool \<times> bool" where
  "fieldTagInfo f =
     (case fieldTag f of
        None \<Rightarrow> ([], False, False)
      | Some tagValue \<Rightarrow>
          (let tag = TrimBackquotes tagValue;
               jsonTag = StructTag_Get tag ''json'';
               parts = Split jsonTag CHR '','';
               validateTag = StructTag_Get tag ''validate''
           in (if jsonTag \<noteq> [] then hd parts else [],
               jsonTag \<noteq> [] \<and> ''omitempty'' \<in> set (tl parts),
               validateTag \<noteq> [] \<and> Contains validateTag ''required'')))"

definition parseField ::
  "resolveFn \<Rightarrow> TypeResolver \<Rightarrow> field \<Rightarrow> SchemaSpec \<Rightarrow> (SchemaSpec \<times> TypeResolver) option" where
  "parseField rt r f schema =
     (case fieldTagInfo f of
        (jsonName, omitempty, required) \<Rightarrow>
          if jsonName = [] \<or> jsonName = ''-'' then Some (schema, r)
          else
            (case parseFieldType rt r (fieldType f) of
               None \<Rightarrow> None
             | Some (fieldSchema, r') \<Rightarrow>
                 (let fieldSchema' =
                        (case fieldDoc f of
                           Some doc \<Rightarrow>
                             if 0 < length (extractComments doc)
                             then withDescription fieldSchema (Join (extractComments doc) '' '')
                             else fieldSchema
                         | None \<Rightarrow> fieldSchema);
                      schema1 = withProperty schema jsonName fieldSchema'
                  in Some (if \<not> omitempty \<or> required then withRequired schema1 jsonName
                           else schema1, r'))))"

fun parseFields ::
  "resolveFn \<Rightarrow> TypeResolver \<Rightarrow> field list \<Rightarrow> SchemaSpec \<Rightarrow> (SchemaSpec \<times> TypeResolver) option" where
  "parseFields rt r [] schema = Some (schema, r)"
| "parseFields rt r (f # fs) schema =
     (case parseField rt r f schema of
        None \<Rightarrow> None
      | Some (schema', r') \<Rightarrow> parseFields rt r' fs schema')"

definition parseStruct ::
  "resolveFn \<Rightarrow> TypeResolver \<Rightarrow> field list \<Rightarrow> string list option
     \<Rightarrow> (SchemaSpec \<times> TypeResolver) option" where
  "parseStruct rt r fieldList doc =
     parseFields rt r fieldList
       (case doc of
          Some comments \<Rightarrow>
            if 0 < length (extractComments comments)
            then withDescription (typeSchema ''object'') (Join (extractComments comments) '' '')
            else typeSchema ''object''
        | None \<Rightarrow> typeSchema ''object'')"

text \<open>
  The three outcomes of \<open>parseFileForType\<close>: an error, no declaration of that name in
  the file, or the schema of the declaration found.
\<close>

datatype parseResult = ParseError | NotFound | Found SchemaSpec

definition enumSchema :: "string \<Rightarrow> GenDecl list \<Rightarrow> string \<Rightarrow> SchemaSpec" where
  "enumSchema t node typeName =
     (let schema = withDescription (typeSchema t) (''Enum type: '' @ typeName)
      in case tryExtractEnumValues node typeName of
           (values, ok) \<Rightarrow> if ok \<and> 0 < length values then withEnum schema values else schema)"

definition parseFileForType ::
  "resolveFn \<Rightarrow> TypeResolver \<Rightarrow> modelFile \<Rightarrow> string \<Rightarrow> (parseResult \<times> TypeResolver) option" where
  "parseFileForType rt r file typeName =
     (case fileDecls file of
        None \<Rightarrow> Some (ParseError, r)
      | Some node \<Rightarrow>
          (case findTypeSpec node typeName None of
             None \<Rightarrow> Some (NotFound, r)
           | Some (t, typeDoc) \<Rightarrow>
               (case t of
                  StructType fieldList \<Rightarrow>
                    (case parseStruct rt r fieldList typeDoc of
                       None \<Rightarrow> None
                     | Some (schema, r') \<Rightarrow> Some (Found schema, r'))
                | Ident underlyingType \<Rightarrow>
                    Some (Found (if HasSuffix typeName ''Enum''
                                 then enumSchema (mapUnderlyingTypeToOpenAPI underlyingType) node typeName
                                 else resolveBuiltInType underlyingType), r)
                | SelectorExpr x sel \<Rightarrow>
                    (case x of
                       Ident pkg \<Rightarrow>
                         Some (Found (if HasSuffix typeName ''Enum''
                                      then enumSchema ''string'' node typeName
                                      else resolveBuiltInType (pkg @ ''.'' @ sel)), r)
                     | _ \<Rightarrow> Some (ParseError, r))
                | _ \<Rightarrow> Some (ParseError, r))))"

text \<open>
  The loop of \<open>findAndParseType\<close> over the files: \<open>Some schema\<close> from the first file
  that has the declaration, \<open>None\<close> (the "not found" error) when no file has it.
\<close>

fun findInFiles ::
  "resolveFn \<Rightarrow> TypeResolver \<Rightarrow> modelFile list \<Rightarrow> string
     \<Rightarrow> (SchemaSpec option \<times> TypeResolver) option" where
  "findInFiles rt r [] structName = Some (None, r)"
| "findInFiles rt r (file # files) structName =
     (case parseFileForType rt r file structName of
        None \<Rightarrow> None
      | Some (Found schema, r') \<Rightarrow> Some (Some schema, r')
      | Some (_, r') \<Rightarrow> findInFiles rt r' files structName)"

definition findAndParseType ::
  "resolveFn \<Rightarrow> modelFile list \<Rightarrow> TypeResolver \<Rightarrow> string
     \<Rightarrow> (SchemaSpec option \<times> TypeResolver) option" where
  "findAndParseType rt tree r typeName =
     (let parts = Split typeName CHR ''.'';
          pkgName = (if Contains typeName ''.'' then parts ! 0 else []);
          structName = (if Contains typeName ''.'' then parts ! 1 else typeName);
          targetDir = (if pkgName \<noteq> [] then mapPackageNameToDir pkgName else [])
      in findInFiles rt r (findGoFiles tree targetDir) structName)"

primrec ResolveType ::
  "nat \<Rightarrow> modelFile list \<Rightarrow> TypeResolver \<Rightarrow> string \<Rightarrow> (SchemaSpec \<times> TypeResolver) option" where
  "ResolveType 0 tree r typeName = None"
| "ResolveType (Suc depth) tree r typeName =
     (if Type (resolveBuiltInType typeName) \<noteq> [] then Some (resolveBuiltInType typeName, r)
      else if typeName \<in> processed r then Some (refSchema (cleanTypeName typeName), r)
      else
        (case findAndParseType (ResolveType depth tree) tree
                (r\<lparr>processed := insert typeName (processed r)\<rparr>) typeName of
           None \<Rightarrow> None
         | Some (None, r') \<Rightarrow> Some (typeSchema ''object'', r')
         | Some (Some schema, r') \<Rightarrow>
             Some (refSchema (cleanTypeName typeName),
                   r'\<lparr>schemas := mapPut (schemas r') (cleanTypeName typeName) schema\<rparr>)))"

definition GetSchemas :: "TypeResolver \<Rightarrow> (string \<times> SchemaSpec) list" where
  "GetSchemas r = schemas r"

subsection \<open>Notions for the termination argument\<close>

text \<open>
  The type names \<open>parseFieldType\<close> can hand to the recursive call on a field type, and
  with them the names that occur in the struct declarations of a tree.
\<close>

fun fieldTypeNames :: "expr \<Rightarrow> string set" where
  "fieldTypeNames (Ident name) = {name}"
| "fieldTypeNames (SelectorExpr (Ident pkg) sel) = {pkg @ ''.'' @ sel}"
| "fieldTypeNames (ArrayType elt) = fieldTypeNames elt"
| "fieldTypeNames (MapType k v) = fieldTypeNames v"
| "fieldTypeNames (StarExpr x) = fieldTypeNames x"
| "fieldTypeNames _ = {}"

fun specTypeNames :: "spec \<Rightarrow> string set" where
  "specTypeNames (TypeSpec name (StructType fieldList)) =
     (\<Union>f\<in>set fieldList. fieldTypeNames (fieldType f))"
| "specTypeNames _ = {}"

definition treeTypeNames :: "modelFile list \<Rightarrow> string set" where
  "treeTypeNames tree =
     (\<Union>f\<in>set tree. case fileDecls f of
        None \<Rightarrow> {}
      | Some decls \<Rightarrow> (\<Union>d\<in>set decls. \<Union>sp\<in>set (Specs d). specTypeNames sp))"

text \<open>
  A resolving function is growing when it only adds to the processed set, and returning
  on a set of names up to \<open>k\<close> when it returns for every name of the set as soon as at
  most \<open>k\<close> names of the set are not processed yet.
\<close>

definition growing :: "resolveFn \<Rightarrow> bool" where
  "growing rt \<longleftrightarrow> (\<forall>r name s r'. rt r name = Some (s, r') \<longrightarrow> processed r \<subseteq> processed r')"

definition returning :: "resolveFn \<Rightarrow> string set \<Rightarrow> nat \<Rightarrow> bool" where
  "returning rt V k \<longleftrightarrow>
     (\<forall>r name. name \<in> V \<and> card (V - processed r) \<le> k \<longrightarrow> (\<exists>y. rt r name = Some y))"

text \<open>
  One resolving function extends another when it returns the same result wherever the
  other returns.
\<close>

definition extends :: "resolveFn \<Rightarrow> resolveFn \<Rightarrow> bool" where
  "extends rt rt' \<longleftrightarrow> (\<forall>r name y. rt r name = Some y \<longrightarrow> rt' r name = Some y)"

subsection \<open>A models directory with a self-referential struct\<close>

text \<open>
  The file \<open>feeds/feed.go\<close> with
  \<^verbatim>\<open>type Feed struct { ID string `json:"id"`; Parent *Feed `json:"parent,omitempty"`;
                     Children []Feed `json:"children"` }\<close>
  and the schema the resolver builds for it.
\<close>

definition feedFile :: modelFile where
  "feedFile =
     \<lparr>filePath = ''feeds/feed.go'',
      fileDecls = Some [GenDecl TypeDecl None [TypeSpec ''Feed''
        (StructType
           [Field [''ID''] (Ident ''string'') (Some ''`json:\"id\"`'') None,
            Field [''Parent''] (StarExpr (Ident ''Feed''))
              (Some ''`json:\"parent,omitempty\"`'') None,
            Field [''Children''] (ArrayType (Ident ''Feed''))
              (Some ''`json:\"children\"`'') None])]]\<rparr>"

definition feedSchema :: SchemaSpec where
  "feedSchema =
     SchemaSpec ''object'' [] [] []
       [(''id'', typeSchema ''string''),
        (''parent'', refSchema ''Feed''),
        (''children'', SchemaSpec ''array'' [] [] [] [] [] (Some (refSchema ''Feed'')) [] None)]
       [''id'', ''children''] None [] None"

section \<open>Endpoint specifications\<close>

text \<open>The analyzer's \<open>ParameterSpec\<close>, \<open>RequestBodySpec\<close>, \<open>ResponseSpec\<close> and \<open>EndpointSpec\<close>.
  An \<open>EndpointSpec\<close> has the five fields of an \<open>EndpointInfo\<close> and more, so it is written
  as an extension of that record; the controller file, which is never set, is left out.\<close>

record ParameterSpec =
  pName :: string
  pIn :: string
  pRequired :: bool
  pDescription :: string
  pSchema :: SchemaSpec

record RequestBodySpec =
  bDescription :: string
  bRequired :: bool
  bContentType :: string
  bSchema :: SchemaSpec

record ResponseSpec =
  rDescription :: string
  rContentType :: string
  rSchema :: SchemaSpec

record EndpointSpec = EndpointInfo +
  Summary :: string
  eDescription :: string
  Tags :: "string list"
  Parameters :: "ParameterSpec list"
  RequestBody :: "RequestBodySpec option"
  Responses :: "(string \<times> ResponseSpec) list"
  Security :: "SecurityRequirement list"
  HandlerFunction :: "FuncDecl option"

section \<open>Spec Assembler\<close>

text \<open>
  The document types of the assembler, with the fields its functions set. A content map
  takes a media type to the schema of its \<open>MediaTypeSpec\<close>; the \<open>$ref\<close> fields of
  parameters, request bodies and responses stay empty and are left out, and so are the
  constant parts of the document (version, info, servers). Each element of an
  operation's security list is a map with one entry, written as that entry.
\<close>

type_synonym Content = "(string \<times> SchemaSpec option) list"

record ParameterRef =
  prName :: string
  prIn :: string
  prDescription :: string
  prRequired :: bool
  prSchema :: "SchemaSpec option"

record RequestBodyRef =
  rqDescription :: string
  rqRequired :: bool
  rqContent :: Content

record ResponseRef =
  rfDescription :: string
  rfContent :: Content

record OperationSpec =
  opTags :: "string list"
  opSummary :: string
  opDescription :: string
  OperationID :: string
  opParameters :: "ParameterRef list"
  opRequestBody :: "RequestBodyRef option"
  opResponses :: "(string \<times> ResponseRef) list"
  opSecurity :: "(string \<times> string list) list"

record PathItemSpec =
  Get :: "OperationSpec option"
  Post :: "OperationSpec option"
  Put :: "OperationSpec option"
  Delete :: "OperationSpec option"
  Patch :: "OperationSpec option"
  Options :: "OperationSpec option"
  Head :: "OperationSpec option"

record TagSpec =
  tagName :: string
  tagDescription :: string

record OAuthFlow =
  AuthorizationURL :: string
  TokenURL :: string
  flowScopes :: "(string \<times> string) list"

record SecuritySchemeSpec =
  sType :: string
  sDescription :: string
  sScheme :: string
  sBearerFormat :: string
  sAuthorizationCode :: "OAuthFlow option"

record OpenAPISpec =
  Paths :: "(string \<times> PathItemSpec) list"
  Schemas :: "(string \<times> SchemaSpec) list"
  SecuritySchemes :: "(string \<times> SecuritySchemeSpec) list"
  docTags :: "TagSpec list"
  collectedScopes :: "string list"

definition NewOpenAPISpec :: OpenAPISpec where
  "NewOpenAPISpec =
     \<lparr>Paths = [], Schemas = [],
      SecuritySchemes =
        [(''bearerAuth'',
          \<lparr>sType = ''http'', sDescription = ''JWT Bearer token authentication'',
           sScheme = ''bearer'', sBearerFormat = ''JWT'', sAuthorizationCode = None\<rparr>)],
      docTags = [], collectedScopes = []\<rparr>"

text \<open>
  \<open>strings.ToLower\<close> and \<open>strings.ToUpper\<close> on ASCII letters; other bytes are kept. The
  method names they are applied to are those of \<open>isHTTPMethod\<close>.
\<close>

definition toLowerChar :: "char \<Rightarrow> char" where
  "toLowerChar c =
     (if 65 \<le> (of_char c :: nat) \<and> (of_char c :: nat) \<le> 90 then char_of (of_char c + 32 :: nat) else c)"

definition toUpperChar :: "char \<Rightarrow> char" where
  "toUpperChar c =
     (if 97 \<le> (of_char c :: nat) \<and> (of_char c :: nat) \<le> 122 then char_of (of_char c - 32 :: nat) else c)"

definition ToLower :: "string \<Rightarrow> string" where
  "ToLower s = map toLowerChar s"

definition ToUpper :: "string \<Rightarrow> string" where
  "ToUpper s = map toUpperChar s"

text \<open>\<open>wrapResponseSchema\<close>: the \<open>data\<close> envelope for every status code that does not start
  with 4 or 5.\<close>

definition wrapResponseSchema :: "SchemaSpec \<Rightarrow> string \<Rightarrow> SchemaSpec" where
  "wrapResponseSchema schema statusCode =
     (if HasPrefix statusCode ''4'' \<or> HasPrefix statusCode ''5'' then schema
      else SchemaSpec ''object'' [] [] [] [(''data'', schema)] [] None [] None)"

definition generateOperationID :: "'a EndpointSpec_scheme \<Rightarrow> string" where
  "generateOperationID endpoint =
     ToLower (Method endpoint) @ ''_'' @
     TrimSuffix (TrimPrefix (Handler endpoint) ''*'') ''Controller''"

text \<open>One step of the loop of \<open>createOperation\<close> over the responses of the endpoint.\<close>

definition responseRefOf :: "string \<Rightarrow> ResponseSpec \<Rightarrow> ResponseRef" where
  "responseRefOf code response =
     \<lparr>rfDescription = rDescription response,
      rfContent =
        (if rContentType response \<noteq> []
         then [(rContentType response, Some (wrapResponseSchema (rSchema response) code))]
         else [])\<rparr>"

definition defaultBadRequest :: ResponseRef where
  "defaultBadRequest =
     \<lparr>rfDescription = ''Bad Request'', rfContent = [(''application/json'', Some errorSchema)]\<rparr>"

definition createOperation :: "EndpointSpec \<Rightarrow> OperationSpec" where
  "createOperation endpoint =
     (let responses =
            foldl (\<lambda>m (code, response). mapPut m code (responseRefOf code response)) []
                  (Responses endpoint)
      in \<lparr>opTags = Tags endpoint,
          opSummary = Summary endpoint,
          opDescription = eDescription endpoint,
          OperationID = generateOperationID endpoint,
          opParameters =
            map (\<lambda>param. \<lparr>prName = pName param, prIn = pIn param,
                            prDescription = pDescription param, prRequired = pRequired param,
                            prSchema = Some (pSchema param)\<rparr>)
                (Parameters endpoint),
          opRequestBody =
            (case RequestBody endpoint of
               None \<Rightarrow> None
             | Some body \<Rightarrow>
                 Some \<lparr>rqDescription = bDescription body, rqRequired = bRequired body,
                       rqContent = [(bContentType body, Some (bSchema body))]\<rparr>),
          opResponses =
            (if map_of responses ''400'' = None then mapPut responses ''400'' defaultBadRequest
             else responses),
          opSecurity = map (\<lambda>sec. (Name sec, Scopes sec)) (Security endpoint)\<rparr>)"

definition addTag :: "OpenAPISpec \<Rightarrow> string list \<Rightarrow> string \<Rightarrow> OpenAPISpec" where
  "addTag s tags name =
     foldl (\<lambda>s' newTag.
              if \<exists>existingTag\<in>set (docTags s'). tagName existingTag = newTag then s'
              else s'\<lparr>docTags := docTags s' @
                         [\<lparr>tagName = newTag, tagDescription = newTag @ '' related endpoints''\<rparr>]\<rparr>)
           s tags"

definition emptyPathItem :: PathItemSpec where
  "emptyPathItem =
     \<lparr>Get = None, Post = None, Put = None, Delete = None, Patch = None, Options = None,
      Head = None\<rparr>"

definition AddEndpoint :: "OpenAPISpec \<Rightarrow> EndpointSpec \<Rightarrow> OpenAPISpec" where
  "AddEndpoint s endpoint =
     (let path = OpenAPISpec_normalizePath (Path endpoint);
          pathItem = (case map_of (Paths s) path of Some item \<Rightarrow> item | None \<Rightarrow> emptyPathItem);
          operation = createOperation endpoint;
          method = ToLower (Method endpoint);
          pathItem' =
            (if method = ''get'' then pathItem\<lparr>Get := Some operation\<rparr>
             else if method = ''post'' then pathItem\<lparr>Post := Some operation\<rparr>
             else if method = ''put'' then pathItem\<lparr>Put := Some operation\<rparr>
             else if method = ''delete'' then pathItem\<lparr>Delete := Some operation\<rparr>
             else if method = ''patch'' then pathItem\<lparr>Patch := Some operation\<rparr>
             else if method = ''options'' then pathItem\<lparr>Options := Some operation\<rparr>
             else if method = ''head'' then pathItem\<lparr>Head := Some operation\<rparr>
             else pathItem);
          s1 = addTag (s\<lparr>Paths := mapPut (Paths s) path pathItem'\<rparr>) (Tags endpoint)
                 (MSName endpoint)
      in s1\<lparr>collectedScopes :=
               foldl (\<lambda>scopes scope. if scope \<in> set scopes then scopes else scopes @ [scope])
                     (collectedScopes s1) (concat (map Scopes (Security endpoint)))\<rparr>)"

definition FinalizeSecuritySchemes :: "OpenAPISpec \<Rightarrow> string \<Rightarrow> string \<Rightarrow> OpenAPISpec" where
  "FinalizeSecuritySchemes s oauthAuthorize oauthToken =
     (if length (collectedScopes s) = 0 then s
      else s\<lparr>SecuritySchemes :=
               mapPut (SecuritySchemes s) ''permissions''
                 \<lparr>sType = ''oauth2'',
                  sDescription = ''OAuth2 with permission scopes extracted from middleware'',
                  sScheme = [], sBearerFormat = [],
                  sAuthorizationCode =
                    Some \<lparr>AuthorizationURL = oauthAuthorize, TokenURL = oauthToken,
                          flowScopes = map (\<lambda>scope. (scope, ''Permission: '' @ scope))
                                           (collectedScopes s)\<rparr>\<rparr>\<rparr>)"

text \<open>
  \<open>collectTypeRefFromSingleSchema\<close>: the last segment of the node's reference, then the
  properties, then the items. The set of names is a list without repetitions.
\<close>

fun schemaTypeRefs :: "SchemaSpec \<Rightarrow> string list"
  and propertyTypeRefs :: "(string \<times> SchemaSpec) list \<Rightarrow> string list"
  and itemTypeRefs :: "SchemaSpec option \<Rightarrow> string list" where
  "schemaTypeRefs (SchemaSpec t f d ref props req items enum ap) =
     (if ref \<noteq> [] then [last (Split ref CHR ''/'')] else []) @
     propertyTypeRefs props @ itemTypeRefs items"
| "propertyTypeRefs [] = []"
| "propertyTypeRefs ((name, propSchema) # props) = schemaTypeRefs propSchema @ propertyTypeRefs props"
| "itemTypeRefs None = []"
| "itemTypeRefs (Some itemSchema) = schemaTypeRefs itemSchema"

definition contentTypeRefs :: "Content \<Rightarrow> string list" where
  "contentTypeRefs content =
     concat (map (\<lambda>(mediaType, schema). itemTypeRefs schema) content)"

definition operationTypeRefs :: "OperationSpec \<Rightarrow> string list" where
  "operationTypeRefs op =
     (case opRequestBody op of None \<Rightarrow> [] | Some body \<Rightarrow> contentTypeRefs (rqContent body)) @
     concat (map (\<lambda>(code, response). contentTypeRefs (rfContent response)) (opResponses op)) @
     concat (map (\<lambda>param. itemTypeRefs (prSchema param)) (opParameters op))"

definition collectTypeReferences :: "OpenAPISpec \<Rightarrow> string list" where
  "collectTypeReferences s =
     remdups
       (concat (map (\<lambda>(path, pathItem).
                       concat (map (\<lambda>op. case op of None \<Rightarrow> [] | Some op' \<Rightarrow> operationTypeRefs op')
                                   [Get pathItem, Post pathItem, Put pathItem, Delete pathItem,
                                    Patch pathItem, Options pathItem, Head pathItem]))
                    (Paths s)))"

text \<open>
  \<open>resolveAllSchemas\<close>: every collected name goes through \<open>ResolveType\<close>, whose result is
  dropped, and then the resolver's table is copied into the components. The depth bound
  is that of each \<open>ResolveType\<close> call.
\<close>

fun resolveEach ::
  "nat \<Rightarrow> modelFile list \<Rightarrow> TypeResolver \<Rightarrow> string list \<Rightarrow> TypeResolver option" where
  "resolveEach depth tree resolver [] = Some resolver"
| "resolveEach depth tree resolver (typeName # typeRefs) =
     (case ResolveType depth tree resolver typeName of
        None \<Rightarrow> None
      | Some (schema, resolver') \<Rightarrow> resolveEach depth tree resolver' typeRefs)"

definition resolveAllSchemas ::
  "nat \<Rightarrow> modelFile list \<Rightarrow> OpenAPISpec \<Rightarrow> TypeResolver \<Rightarrow> (OpenAPISpec \<times> TypeResolver) option" where
  "resolveAllSchemas depth tree s resolver =
     (case resolveEach depth tree resolver (collectTypeReferences s) of
        None \<Rightarrow> None
      | Some resolver' \<Rightarrow>
          Some (s\<lparr>Schemas := foldl (\<lambda>m (name, schema). mapPut m name schema) (Schemas s)
                                    (GetSchemas resolver')\<rparr>,
                resolver'))"

text \<open>
  The assembly of \<open>generateOpenAPISpec\<close>: the endpoints are added to a new document, the
  schemas are resolved with a new resolver, and the security schemes are finalized.
\<close>

definition assemble ::
  "nat \<Rightarrow> modelFile list \<Rightarrow> EndpointSpec list \<Rightarrow> string \<Rightarrow> string \<Rightarrow> OpenAPISpec option" where
  "assemble depth tree endpoints oauthAuthorize oauthToken =
     (case resolveAllSchemas depth tree (foldl AddEndpoint NewOpenAPISpec endpoints)
             NewTypeResolver of
        None \<Rightarrow> None
      | Some (s, resolver) \<Rightarrow> Some (FinalizeSecuritySchemes s oauthAuthorize oauthToken))"

text \<open>
  The invariant of the document: every name referenced under the paths has an entry in
  the component schemas.
\<close>

definition referencesResolved :: "OpenAPISpec \<Rightarrow> bool" where
  "referencesResolved s =
     list_all (\<lambda>name. map_of (Schemas s) name \<noteq> None) (collectTypeReferences s)"

section \<open>Endpoint Enhancer\<close>

text \<open>
  \<open>analyzerContext\<close> after \<open>parseDirectoryFiles\<close>: the function table of the directory
  (the field \<open>functions\<close>, here \<open>functionDecls\<close>) and
  the controller field types, keyed by \<open>controllerType.fieldName\<close>. The business-layer
  registry is its lookup \<open>LookupMethodByFieldType\<close> (\<open>None\<close> for a \<open>nil\<close> registry); the
  import table is only read while the field types are collected.

  The context also carries what the analyzer takes from the Unicode tables of the Go
  runtime: \<open>unicodeToLower\<close> is \<open>strings.ToLower\<close> on a text with a byte outside ASCII,
  where it maps \<open>unicode.ToLower\<close> over the runes. The tables are not spelled out; every
  statement below holds whatever this function is.
\<close>

record analyzerContext =
  functionDecls :: "string \<rightharpoonup> FuncDecl"
  controllerFields :: "string \<rightharpoonup> string"
  businessLayerRegistry :: "(string \<Rightarrow> string \<Rightarrow> string) option"
  analyzerMsName :: string
  unicodeToLower :: "string \<Rightarrow> string"

subsection \<open>Tags and path parameters\<close>

text \<open>
  The width of the UTF-8 sequence a text starts with, as the runtime decodes it: the
  shortest form only, no surrogate, at most U+10FFFF. It is 0 when the first byte starts
  no such sequence.
\<close>

definition byteIn :: "char \<Rightarrow> nat \<Rightarrow> nat \<Rightarrow> bool" where
  "byteIn c lo hi = (lo \<le> (of_char c :: nat) \<and> (of_char c :: nat) \<le> hi)"

fun runeWidth :: "string \<Rightarrow> nat" where
  "runeWidth [] = 0"
| "runeWidth (c # cs) =
     (let b = (of_char c :: nat)
      in if b < 0x80 then 1
         else if 0xC2 \<le> b \<and> b \<le> 0xDF then
           (if 1 \<le> length cs \<and> byteIn (cs ! 0) 0x80 0xBF then 2 else 0)
         else if 0xE0 \<le> b \<and> b \<le> 0xEF then
           (if 2 \<le> length cs \<and>
               byteIn (cs ! 0) (if b = 0xE0 then 0xA0 else 0x80) (if b = 0xED then 0x9F else 0xBF) \<and>
               byteIn (cs ! 1) 0x80 0xBF
            then 3 else 0)
         else if 0xF0 \<le> b \<and> b \<le> 0xF4 then
           (if 3 \<le> length cs \<and>
               byteIn (cs ! 0) (if b = 0xF0 then 0x90 else 0x80) (if b = 0xF4 then 0x8F else 0xBF) \<and>
               byteIn (cs ! 1) 0x80 0xBF \<and> byteIn (cs ! 2) 0x80 0xBF
            then 4 else 0)
         else 0)"

text \<open>
  The loop \<open>for _, c := range segment\<close> goes through the runes of the text; \<open>rangeRunes\<close>
  is \<open>string(c)\<close> for each of them in turn: the bytes of a well-formed sequence as they
  are, and the encoding of U+FFFD for a byte that starts none.
\<close>

fun rangeRunes :: "string \<Rightarrow> string list" where
  "rangeRunes [] = []"
| "rangeRunes (c # cs) =
     (if runeWidth (c # cs) = 0 then [CHR 0xEF, CHR 0xBF, CHR 0xBD] # rangeRunes cs
      else (c # take (runeWidth (c # cs) - 1) cs) # rangeRunes (drop (runeWidth (c # cs) - 1) cs))"

text \<open>
  \<open>formatTagName\<close>: the segment is cut at hyphens and underscores, empty pieces dropped,
  each piece gets an upper-case first letter and a lower-case rest. The first byte of a
  piece is raised only when it is an ASCII letter, and \<open>string(first)\<close> encodes the code
  point of that value; the rest goes through \<open>strings.ToLower\<close>, whose result on a text
  that is not ASCII is the argument \<open>toLower\<close>.
\<close>

fun splitSegment :: "string list \<Rightarrow> string \<Rightarrow> string list" where
  "splitSegment [] current = (if current \<noteq> [] then [current] else [])"
| "splitSegment (c # cs) current =
     (if c = ''-'' \<or> c = ''_''
      then (if current \<noteq> [] then current # splitSegment cs [] else splitSegment cs [])
      else splitSegment cs (current @ c))"

definition formatTagName :: "(string \<Rightarrow> string) \<Rightarrow> string \<Rightarrow> string" where
  "formatTagName toLower segment =
     Join (map (\<lambda>part. if 0 < length part
                        then AppendRune (of_char (toUpperChar (hd part))) @
                             (if list_all (\<lambda>c. (of_char c :: nat) < 0x80) (tl part)
                              then ToLower (tl part) else toLower (tl part))
                        else part)
               (splitSegment (rangeRunes segment) []))
          '' ''"

definition extractPathPrefix :: "(string \<Rightarrow> string) \<Rightarrow> string \<Rightarrow> string" where
  "extractPathPrefix toLower path =
     (let trimmedPath = TrimPrefix path ''/''
      in if trimmedPath = [] then []
         else
           (let firstSegment = takeWhile (\<lambda>c. c \<noteq> CHR ''/'') trimmedPath
            in if HasPrefix firstSegment '':'' then []
               else if length firstSegment = 0 then []
               else formatTagName toLower firstSegment))"

definition assignTags :: "analyzerContext \<Rightarrow> string \<Rightarrow> string list" where
  "assignTags ac path =
     (let tag = extractPathPrefix (unicodeToLower ac) path
      in if tag = [] then [analyzerMsName ac] else [tag])"

definition extractPathParameters :: "string \<Rightarrow> ParameterSpec list" where
  "extractPathParameters path =
     map (\<lambda>part. \<lparr>pName = TrimPrefix part '':'', pIn = ''path'', pRequired = True,
                   pDescription = ''Path parameter: '' @ TrimPrefix part '':'',
                   pSchema = typeSchema ''string''\<rparr>)
         (filter (\<lambda>part. HasPrefix part '':'') (Split path CHR ''/''))"

definition inferParamSchema :: "string \<Rightarrow> SchemaSpec" where
  "inferParamSchema methodName =
     (if methodName = ''ParamsUID'' then formatSchema ''string'' ''uuid''
      else if methodName = ''ParamsUint64'' then formatSchema ''integer'' ''uint64''
      else if methodName = ''ParamsInt'' then formatSchema ''integer'' ''int64''
      else typeSchema ''string'')"

subsection \<open>Type inference in a handler body\<close>

fun extractTypeName :: "expr \<Rightarrow> string" where
  "extractTypeName (Ident name) = name"
| "extractTypeName (SelectorExpr (Ident pkg) sel) = pkg @ ''.'' @ sel"
| "extractTypeName (SelectorExpr x sel) = sel"
| "extractTypeName _ = []"

fun inferTypeFromExpr :: "expr \<Rightarrow> string" where
  "inferTypeFromExpr (CompositeLit t) = extractTypeName t"
| "inferTypeFromExpr (CallExpr (Ident name) args) = name"
| "inferTypeFromExpr (CallExpr (SelectorExpr x sel) args) = sel"
| "inferTypeFromExpr (Ident name) = name"
| "inferTypeFromExpr _ = ''object''"

text \<open>
  The registry step shared by \<open>inferResponseTypeFromCall\<close> and
  \<open>inferTypeFromExprWithVars\<close>: for a call \<open>receiver.field.Method()\<close> whose field is a
  known controller field, the non-empty return type the registry has for the method.
\<close>

definition registryReturnType :: "analyzerContext \<Rightarrow> string \<Rightarrow> expr \<Rightarrow> string \<Rightarrow> string option" where
  "registryReturnType ac receiverType x methodName =
     (case x of
        SelectorExpr fx fieldName \<Rightarrow>
          (case controllerFields ac (receiverType @ ''.'' @ fieldName) of
             Some declaredType \<Rightarrow>
               (case businessLayerRegistry ac of
                  Some LookupMethodByFieldType \<Rightarrow>
                    if LookupMethodByFieldType declaredType methodName \<noteq> []
                    then Some (LookupMethodByFieldType declaredType methodName) else None
                | None \<Rightarrow> None)
           | None \<Rightarrow> None)
      | _ \<Rightarrow> None)"

definition tryFindResponseType :: "string \<Rightarrow> string list \<Rightarrow> string" where
  "tryFindResponseType baseName suffixes =
     (case filter (\<lambda>suffix. baseName @ suffix \<noteq> []) suffixes of
        suffix # _ \<Rightarrow> baseName @ suffix
      | [] \<Rightarrow> baseName)"

fun inferResponseTypeFromCall :: "analyzerContext \<Rightarrow> expr \<Rightarrow> string \<Rightarrow> string" where
  "inferResponseTypeFromCall ac (CallExpr (SelectorExpr x methodName) args) receiverType =
     (case registryReturnType ac receiverType x methodName of
        Some returnType \<Rightarrow> returnType
      | None \<Rightarrow>
          if HasPrefix methodName ''Create''
          then tryFindResponseType (TrimPrefix methodName ''Create'') [''Response'', ''View'', []]
          else if HasPrefix methodName ''Update''
          then tryFindResponseType (TrimPrefix methodName ''Update'') [''Response'', ''View'', []]
          else if HasPrefix methodName ''Get''
          then tryFindResponseType (TrimPrefix methodName ''Get'') [''Response'', ''View'', []]
          else if HasPrefix methodName ''List''
          then tryFindResponseType (TrimPrefix methodName ''List'')
                 [''ListResponse'', ''List'', ''Response'']
          else tryFindResponseType methodName [''Response'', []])"
| "inferResponseTypeFromCall ac _ receiverType = []"

fun inferTypeFromExprWithVars ::
  "analyzerContext \<Rightarrow> expr \<Rightarrow> (string \<rightharpoonup> string) \<Rightarrow> string \<Rightarrow> string" where
  "inferTypeFromExprWithVars ac (CompositeLit t) varTypes receiverType = extractTypeName t"
| "inferTypeFromExprWithVars ac (CallExpr (SelectorExpr x methodName) args) varTypes receiverType =
     (case registryReturnType ac receiverType x methodName of
        Some returnType \<Rightarrow> returnType
      | None \<Rightarrow> methodName)"
| "inferTypeFromExprWithVars ac (CallExpr (Ident name) args) varTypes receiverType = name"
| "inferTypeFromExprWithVars ac (Ident name) varTypes receiverType =
     (case varTypes name of Some typeName \<Rightarrow> typeName | None \<Rightarrow> name)"
| "inferTypeFromExprWithVars ac (UnaryExpr isAnd x) varTypes receiverType =
     (if isAnd then inferTypeFromExprWithVars ac x varTypes receiverType else ''object'')"
| "inferTypeFromExprWithVars ac _ varTypes receiverType = ''object''"

fun extractTypeFromUnaryExpr :: "expr \<Rightarrow> (string \<rightharpoonup> string) \<Rightarrow> string" where
  "extractTypeFromUnaryExpr (UnaryExpr isAnd x) varTypes =
     (if \<not> isAnd then []
      else (case x of
              CompositeLit t \<Rightarrow> extractTypeName t
            | Ident name \<Rightarrow> (case varTypes name of Some typeName \<Rightarrow> typeName | None \<Rightarrow> name)
            | _ \<Rightarrow> []))"
| "extractTypeFromUnaryExpr _ varTypes = []"

text \<open>The first pass of \<open>analyzeFunctionBody\<close>: the variable types one node contributes.\<close>

definition assignEach :: "(string \<rightharpoonup> string) \<Rightarrow> expr list \<Rightarrow> expr list \<Rightarrow> (string \<rightharpoonup> string)" where
  "assignEach varTypes lhs rhs =
     foldl (\<lambda>vt (l, r). case l of Ident name \<Rightarrow> vt(name \<mapsto> inferTypeFromExpr r) | _ \<Rightarrow> vt)
           varTypes (zip lhs rhs)"

fun declareSpec :: "(string \<rightharpoonup> string) \<Rightarrow> spec \<Rightarrow> (string \<rightharpoonup> string)" where
  "declareSpec varTypes (ValueSpec names (Some t) vals) =
     foldl (\<lambda>vt name. vt(name \<mapsto> extractTypeName t)) varTypes names"
| "declareSpec varTypes (ValueSpec names None vals) =
     foldl (\<lambda>vt (name, v). vt(name \<mapsto> inferTypeFromExpr v)) varTypes (zip names vals)"
| "declareSpec varTypes _ = varTypes"

fun firstResultVariable :: "expr list \<Rightarrow> string option" where
  "firstResultVariable [] = None"
| "firstResultVariable (Ident name # lhs) =
     (if name \<noteq> ''err'' \<and> name \<noteq> ''_'' then Some name else firstResultVariable lhs)"
| "firstResultVariable (_ # lhs) = firstResultVariable lhs"

fun collectVarTypes ::
  "analyzerContext \<Rightarrow> string \<Rightarrow> (string \<rightharpoonup> string) \<Rightarrow> node \<Rightarrow> (string \<rightharpoonup> string)" where
  "collectVarTypes ac receiverType varTypes (DeclStmt d) =
     (if Tok d = VarDecl then foldl declareSpec varTypes (Specs d) else varTypes)"
| "collectVarTypes ac receiverType varTypes (AssignStmt isDefine lhs rhs) =
     (if \<not> isDefine then varTypes
      else if length rhs = 1 then
        (case hd rhs of
           CallExpr fn args \<Rightarrow>
             (let inferredType = inferResponseTypeFromCall ac (hd rhs) receiverType
              in case firstResultVariable lhs of
                   Some name \<Rightarrow>
                     varTypes(name \<mapsto> (if inferredType \<noteq> [] then inferredType
                                         else inferTypeFromExpr (hd rhs)))
                 | None \<Rightarrow> varTypes)
         | _ \<Rightarrow> assignEach varTypes lhs rhs)
      else assignEach varTypes lhs rhs)"
| "collectVarTypes ac receiverType varTypes _ = varTypes"

subsection \<open>Calls in a handler body\<close>

definition isIntegerLiteral :: "expr \<Rightarrow> bool" where
  "isIntegerLiteral e = (case e of BasicLit kind val \<Rightarrow> kind = INTLIT | _ \<Rightarrow> False)"

definition extractIntegerLiteral :: "expr \<Rightarrow> string" where
  "extractIntegerLiteral e =
     (case e of BasicLit kind val \<Rightarrow> (if kind = INTLIT then val else []) | _ \<Rightarrow> [])"

definition jsonResponse :: "string \<Rightarrow> SchemaSpec \<Rightarrow> ResponseSpec" where
  "jsonResponse description schema =
     \<lparr>rDescription = description, rContentType = ''application/json'', rSchema = schema\<rparr>"

text \<open>The \<open>Response\<close> case of \<open>analyzeCallExpr\<close>, on the arguments of the call.\<close>

definition analyzeResponseCall ::
  "analyzerContext \<Rightarrow> expr list \<Rightarrow> EndpointSpec \<Rightarrow> (string \<rightharpoonup> string) \<Rightarrow> string
     \<Rightarrow> EndpointSpec" where
  "analyzeResponseCall ac args spec varTypes receiverType =
     (if 2 \<le> length args then
        (let withCode = (3 \<le> length args \<and> isIntegerLiteral (args ! 1));
             codeOnly = (\<not> withCode \<and> length args = 2 \<and> isIntegerLiteral (args ! 1));
             statusCode = (if withCode \<or> codeOnly then extractIntegerLiteral (args ! 1) else ''200'');
             hasData = (\<not> codeOnly);
             dataArgIndex = (if withCode then 2 else 1)
         in if \<not> hasData then
              spec\<lparr>Responses := mapPut (Responses spec) statusCode
                      (jsonResponse ''Successful response''
                         (withDescription (typeSchema ''string'')
                            (''Returns '' @ [CHR 0x22] @ ''Ok'' @ [CHR 0x22])))\<rparr>
            else if args ! dataArgIndex = Ident ''err'' then
              spec\<lparr>Responses := mapPut (Responses spec) statusCode
                      (jsonResponse ''Error response'' errorSchema)\<rparr>
            else
              (let respType = inferTypeFromExprWithVars ac (args ! dataArgIndex) varTypes receiverType;
                   cleanedTypeName = cleanTypeName respType
               in if cleanedTypeName \<noteq> [] \<and> cleanedTypeName \<noteq> ''object'' then
                    spec\<lparr>Responses := mapPut (Responses spec) statusCode
                            (jsonResponse ''Successful response'' (refSchema cleanedTypeName))\<rparr>
                  else
                    spec\<lparr>Responses := mapPut (Responses spec) statusCode
                            (jsonResponse ''Successful response'' (typeSchema ''object''))\<rparr>))
      else
        spec\<lparr>Responses := mapPut (Responses spec) ''204''
                \<lparr>rDescription = ''No content'', rContentType = [], rSchema = emptySchema\<rparr>\<rparr>)"

fun analyzeCallExpr ::
  "analyzerContext \<Rightarrow> expr \<Rightarrow> EndpointSpec \<Rightarrow> (string \<rightharpoonup> string) \<Rightarrow> string \<Rightarrow> EndpointSpec" where
  "analyzeCallExpr ac (CallExpr (SelectorExpr x methodName) args) spec varTypes receiverType =
     (if methodName \<in> set [''Params'', ''ParamsUID'', ''ParamsUint64'', ''ParamsInt''] then
        (if 0 < length args then
           (let argIndex = (if methodName \<noteq> ''Params'' then 1 else 0 :: nat)
            in if argIndex < length args then
                 (let paramName = extractStringLiteral (args ! argIndex)
                  in if paramName \<noteq> [] then
                       spec\<lparr>Parameters := Parameters spec @
                               [\<lparr>pName = paramName, pIn = ''path'', pRequired = True,
                                 pDescription = ''Path parameter: '' @ paramName,
                                 pSchema = inferParamSchema methodName\<rparr>]\<rparr>
                     else spec)
               else spec)
         else spec)
      else if methodName = ''DeserializeFromFn'' then
        (if 2 \<le> length args then
           (let reqType = extractTypeFromUnaryExpr (args ! 1) varTypes
            in if reqType \<noteq> [] then
                 spec\<lparr>RequestBody :=
                         Some \<lparr>bDescription = ''Request body'', bRequired = True,
                               bContentType = ''application/json'',
                               bSchema = refSchema (cleanTypeName reqType)\<rparr>\<rparr>
               else spec)
         else spec)
      else if methodName = ''Response'' then analyzeResponseCall ac args spec varTypes receiverType
      else if methodName = ''ParseQueryParameters'' then
        spec\<lparr>Parameters := Parameters spec @
                [\<lparr>pName = ''query'', pIn = ''query'', pRequired = False,
                  pDescription = ''Query parameters for filtering, sorting, and pagination'',
                  pSchema = typeSchema ''object''\<rparr>]\<rparr>
      else if methodName = ''APIError'' then
        (if map_of (Responses spec) ''400'' = None then
           spec\<lparr>Responses := mapPut (Responses spec) ''400''
                   (jsonResponse ''Bad request or error response'' errorSchema)\<rparr>
         else spec)
      else spec)"
| "analyzeCallExpr ac _ spec varTypes receiverType = spec"

text \<open>
  \<open>analyzeFunctionBody\<close>: the first pass builds the variable types from all nodes, the
  second goes through the call expressions with them.
\<close>

definition analyzeFunctionBody ::
  "analyzerContext \<Rightarrow> node list \<Rightarrow> EndpointSpec \<Rightarrow> string \<Rightarrow> EndpointSpec" where
  "analyzeFunctionBody ac body spec receiverType =
     (let varTypes = foldl (collectVarTypes ac receiverType) Map.empty body
      in foldl (\<lambda>spec' n. case n of
                              ExprNode e \<Rightarrow> analyzeCallExpr ac e spec' varTypes receiverType
                            | _ \<Rightarrow> spec')
               spec body)"

definition extractReceiverType :: "FuncDecl \<Rightarrow> string" where
  "extractReceiverType funcDecl =
     (case funcRecv funcDecl of
        [] \<Rightarrow> []
      | t # _ \<Rightarrow>
          (case t of
             StarExpr x \<Rightarrow> (case x of Ident name \<Rightarrow> name | _ \<Rightarrow> [])
           | Ident name \<Rightarrow> name
           | _ \<Rightarrow> []))"

subsection \<open>\<open>enhanceEndpoint\<close>\<close>

text \<open>The spec \<open>enhanceEndpoint\<close> starts from, before it looks for the handler.\<close>

definition basicSpec :: "analyzerContext \<Rightarrow> EndpointInfo \<Rightarrow> EndpointSpec" where
  "basicSpec ac basic =
     \<lparr>Path = Path basic, Method = ToUpper (Method basic), Handler = Handler basic,
      MSName = MSName basic, Middleware = Middleware basic,
      Summary = [], eDescription = [], Tags = assignTags ac (Path basic), Parameters = [],
      RequestBody = None, Responses = [], Security = extractSecurity (Middleware basic),
      HandlerFunction = None\<rparr>"

definition enhanceEndpoint :: "analyzerContext \<Rightarrow> EndpointInfo \<Rightarrow> EndpointSpec" where
  "enhanceEndpoint ac basic =
     (case functionDecls ac (Handler basic) of
        None \<Rightarrow> basicSpec ac basic
      | Some handlerFunc \<Rightarrow>
          (let spec1 = (basicSpec ac basic)\<lparr>HandlerFunction := Some handlerFunc\<rparr>;
               receiverType = extractReceiverType handlerFunc;
               comments = (case funcDoc handlerFunc of Some doc \<Rightarrow> extractComments doc | None \<Rightarrow> []);
               spec2 = (if 0 < length comments
                        then spec1\<lparr>Summary := hd comments,
                                   eDescription := (if 1 < length comments
                                                    then Join (tl comments) [CHR 0x0A] else [])\<rparr>
                        else spec1);
               spec3 = (case funcBody handlerFunc of
                          Some body \<Rightarrow> analyzeFunctionBody ac body spec2 receiverType
                        | None \<Rightarrow> spec2);
               existingParams = set (map pName (Parameters spec3));
               spec4 = spec3\<lparr>Parameters := Parameters spec3 @
                                filter (\<lambda>pathParam. pName pathParam \<notin> existingParams)
                                       (extractPathParameters (Path spec3))\<rparr>
           in if length (Responses spec4) = 0
              then spec4\<lparr>Responses := mapPut (Responses spec4) ''200''
                           (jsonResponse ''Successful response'' (typeSchema ''object''))\<rparr>
              else spec4))"

text \<open>The operation a path item holds for a lower-case method name.\<close>

definition pathItemOperation :: "PathItemSpec \<Rightarrow> string \<Rightarrow> OperationSpec option" where
  "pathItemOperation pathItem method =
     (if method = ''get'' then Get pathItem
      else if method = ''post'' then Post pathItem
      else if method = ''put'' then Put pathItem
      else if method = ''delete'' then Delete pathItem
      else if method = ''patch'' then Patch pathItem
      else if method = ''options'' then Options pathItem
      else if method = ''head'' then Head pathItem
      else None)"

text \<open>
  What every response table of the analyzer satisfies: one entry per status code, and an
  entry either has the content type \<open>application/json\<close> or carries no schema.
\<close>

definition schemaHasContentType :: "(string \<times> ResponseSpec) list \<Rightarrow> bool" where
  "schemaHasContentType responses =
     (distinct (map fst responses) \<and>
      list_all (\<lambda>(code, response). rContentType response = ''application/json'' \<or>
                                   rSchema response = emptySchema)
               responses)"

section \<open>A controller directory\<close>

text \<open>
  A controller with the handler
  \<^verbatim>\<open>// listFeeds returns the feeds
  func (c *feedsController) listFeeds(ctx *fiber.Ctx) error {
      result, err := c.feedService.ListFeeds(ctx)
      return http.Response(ctx, result)
  }\<close>
  the handler
  \<^verbatim>\<open>func (c *feedsController) createFeed(ctx *fiber.Ctx) error {
      if err := c.feedService.Create(ctx); err != nil {
          return http.APIError(ctx, err)
      }
      return http.Response(ctx, 201)
  }\<close>
  and the handlers
  \<^verbatim>\<open>func (c *feedsController) ping(ctx *fiber.Ctx) error { return http.Response(ctx) }
  func (c *feedsController) health(ctx *fiber.Ctx) error { return nil }\<close>
  registered as \<open>GET /feeds\<close> behind an authentication check, as \<open>POST /feeds\<close> and as
  \<open>GET /ping\<close>. The paths of the directory are ASCII, so its tags need nothing of the
  Unicode tables.
\<close>

definition listFeedsHandler :: FuncDecl where
  "listFeedsHandler =
     \<lparr>funcName = ''listFeeds'', funcDoc = Some [''// listFeeds returns the feeds''],
      funcRecv = [StarExpr (Ident ''feedsController'')],
      funcBody = Some
        [AssignStmt True [Ident ''result'', Ident ''err'']
           [CallExpr (SelectorExpr (SelectorExpr (Ident ''c'') ''feedService'') ''ListFeeds'')
              [Ident ''ctx'']],
         ExprNode (CallExpr (SelectorExpr (SelectorExpr (Ident ''c'') ''feedService'') ''ListFeeds'')
                     [Ident ''ctx'']),
         ExprNode (CallExpr (SelectorExpr (Ident ''http'') ''Response'')
                     [Ident ''ctx'', Ident ''result''])]\<rparr>"

definition createFeedHandler :: FuncDecl where
  "createFeedHandler =
     \<lparr>funcName = ''createFeed'', funcDoc = None,
      funcRecv = [StarExpr (Ident ''feedsController'')],
      funcBody = Some
        [OtherNode,
         AssignStmt True [Ident ''err'']
           [CallExpr (SelectorExpr (SelectorExpr (Ident ''c'') ''feedService'') ''Create'')
              [Ident ''ctx'']],
         ExprNode (CallExpr (SelectorExpr (SelectorExpr (Ident ''c'') ''feedService'') ''Create'')
                     [Ident ''ctx'']),
         ExprNode (CallExpr (SelectorExpr (Ident ''http'') ''APIError'')
                     [Ident ''ctx'', Ident ''err'']),
         ExprNode (CallExpr (SelectorExpr (Ident ''http'') ''Response'')
                     [Ident ''ctx'', BasicLit INTLIT ''201''])]\<rparr>"

definition pingHandler :: FuncDecl where
  "pingHandler =
     \<lparr>funcName = ''ping'', funcDoc = None,
      funcRecv = [StarExpr (Ident ''feedsController'')],
      funcBody = Some [ExprNode (CallExpr (SelectorExpr (Ident ''http'') ''Response'')
                                   [Ident ''ctx''])]\<rparr>"

definition healthHandler :: FuncDecl where
  "healthHandler =
     \<lparr>funcName = ''health'', funcDoc = None,
      funcRecv = [StarExpr (Ident ''feedsController'')], funcBody = Some []\<rparr>"

definition feedsAnalyzer :: analyzerContext where
  "feedsAnalyzer =
     \<lparr>functionDecls = [''listFeeds'' \<mapsto> listFeedsHandler, ''createFeed'' \<mapsto> createFeedHandler,
                       ''ping'' \<mapsto> pingHandler, ''health'' \<mapsto> healthHandler],
      controllerFields = Map.empty, businessLayerRegistry = None,
      analyzerMsName = ''ms_feeds'', unicodeToLower = (\<lambda>s. s)\<rparr>"

definition listFeedsEndpoint :: EndpointInfo where
  "listFeedsEndpoint =
     \<lparr>Path = ''/feeds'', Method = ''Get'', Handler = ''listFeeds'', MSName = ''ms_feeds'',
      Middleware = [''gates.IsAuthenticated.Authenticated()'']\<rparr>"

definition createFeedEndpoint :: EndpointInfo where
  "createFeedEndpoint =
     \<lparr>Path = ''/feeds'', Method = ''Post'', Handler = ''createFeed'', MSName = ''ms_feeds'',
      Middleware = [''gates.IsAuthenticated.Authenticated()'']\<rparr>"

definition pingEndpoint :: EndpointInfo where
  "pingEndpoint =
     \<lparr>Path = ''/ping'', Method = ''Get'', Handler = ''ping'', MSName = ''ms_feeds'',
      Middleware = []\<rparr>"

text \<open>The same registration with a handler that no file of the directory declares.\<close>

definition unknownHandlerEndpoint :: EndpointInfo where
  "unknownHandlerEndpoint =
     \<lparr>Path = ''/feeds'', Method = ''Get'', Handler = ''listAll'', MSName = ''ms_feeds'',
      Middleware = [''gates.IsAuthenticated.Authenticated()'']\<rparr>"

section \<open>Verified properties\<close>

subsection \<open>Security derivation\<close>

lemma securityLoop_NotAuthenticated:
  "\<exists>mw\<in>set chain. Contains mw ''NotAuthenticated'' \<Longrightarrow>
   securityLoop chain scopes hasAuth = None"
  by (induction chain arbitrary: scopes hasAuth) auto

lemma securityLoop_authenticated:
  "\<forall>mw\<in>set chain. \<not> Contains mw ''NotAuthenticated'' \<Longrightarrow>
   securityLoop chain scopes hasAuth =
     Some (scopes @ concat (map extractPermissionsFromMiddleware chain),
           hasAuth \<or> (\<exists>mw\<in>set chain. Contains mw ''Authenticated'' \<or>
                                      Contains mw ''IsAuthenticated''))"
  by (induction chain arbitrary: scopes hasAuth) auto

lemma Contains_NotAuthenticated_call: "Contains ''gates.NotAuthenticated()'' ''NotAuthenticated''"
  by (simp add: Contains_def HasPrefix_def)

lemma Contains_Authenticated_call:
  "Contains ''gates.IsAuthenticated.Authenticated()'' ''Authenticated''"
  by (simp add: Contains_def HasPrefix_def)

lemma not_Contains_NotAuthenticated_auth:
  "\<not> Contains ''gates.IsAuthenticated.Authenticated()'' ''NotAuthenticated''"
  by (simp add: Contains_def HasPrefix_def)

lemma not_Contains_NotAuthenticated_perm:
  "\<not> Contains ''hasPermission(\"orders:write\")'' ''NotAuthenticated''"
  by (simp add: Contains_def HasPrefix_def)

lemma permissions_of_hasPermission:
  "extractPermissionsFromMiddleware ''hasPermission(\"orders:write\")'' = [''orders:write'']"
  by code_simp

lemma permissions_of_Authenticated:
  "extractPermissionsFromMiddleware ''gates.IsAuthenticated.Authenticated()'' = []"
  by code_simp

text \<open>
  Claim C5 (anonymous short-circuit). A middleware chain with an entry that names the
  \<open>NotAuthenticated\<close> marker has an empty list of security requirements, whatever
  authentication or permission middleware stands anywhere else in the chain.
\<close>

theorem anonymous_short_circuit:
  "\<exists>mw\<in>set middleware. Contains mw ''NotAuthenticated'' \<Longrightarrow> extractSecurity middleware = []"
  by (simp add: extractSecurity_def securityLoop_NotAuthenticated)

theorem anonymous_short_circuit_witness:
  "(\<exists>mw\<in>set [''gates.IsAuthenticated.Authenticated()'', ''hasPermission(\"orders:write\")'',
               ''gates.NotAuthenticated()'']. Contains mw ''NotAuthenticated'') \<and>
   extractSecurity [''gates.IsAuthenticated.Authenticated()'', ''hasPermission(\"orders:write\")'',
                    ''gates.NotAuthenticated()''] = []"
proof -
  have h: "\<exists>mw\<in>set [''gates.IsAuthenticated.Authenticated()'', ''hasPermission(\"orders:write\")'',
                      ''gates.NotAuthenticated()'']. Contains mw ''NotAuthenticated''"
    using Contains_NotAuthenticated_call by simp
  from anonymous_short_circuit [OF h] h show ?thesis by blast
qed

text \<open>
  Claim C6 (scope escalation), as the code has it. In a chain where no entry names the
  \<open>NotAuthenticated\<close> marker and some entry names an authentication marker, the security
  list is one requirement: \<open>permissions\<close> with the scopes of all permission-bearing entries
  in chain order when there is at least one scope, and \<open>bearerAuth\<close> without scopes
  otherwise.
\<close>

theorem scope_escalation:
  assumes "\<forall>mw\<in>set chain. \<not> Contains mw ''NotAuthenticated''"
    and "\<exists>mw\<in>set chain. Contains mw ''Authenticated'' \<or> Contains mw ''IsAuthenticated''"
  shows "extractSecurity chain =
           (if concat (map extractPermissionsFromMiddleware chain) \<noteq> []
            then [\<lparr>Name = ''permissions'',
                   Scopes = concat (map extractPermissionsFromMiddleware chain)\<rparr>]
            else [\<lparr>Name = ''bearerAuth'', Scopes = []\<rparr>])"
  using assms by (simp add: extractSecurity_def securityLoop_authenticated)

theorem scope_escalation_witness:
  "extractSecurity [''gates.IsAuthenticated.Authenticated()'', ''hasPermission(\"orders:write\")'']
     = [\<lparr>Name = ''permissions'', Scopes = [''orders:write'']\<rparr>] \<and>
   extractSecurity [''gates.IsAuthenticated.Authenticated()'']
     = [\<lparr>Name = ''bearerAuth'', Scopes = []\<rparr>]"
proof -
  have a1: "\<forall>mw\<in>set [''gates.IsAuthenticated.Authenticated()'', ''hasPermission(\"orders:write\")''].
              \<not> Contains mw ''NotAuthenticated''"
    using not_Contains_NotAuthenticated_auth not_Contains_NotAuthenticated_perm by simp
  have a2: "\<exists>mw\<in>set [''gates.IsAuthenticated.Authenticated()'', ''hasPermission(\"orders:write\")''].
              Contains mw ''Authenticated'' \<or> Contains mw ''IsAuthenticated''"
    using Contains_Authenticated_call by simp
  have b1: "\<forall>mw\<in>set [''gates.IsAuthenticated.Authenticated()'']. \<not> Contains mw ''NotAuthenticated''"
    using not_Contains_NotAuthenticated_auth by simp
  have b2: "\<exists>mw\<in>set [''gates.IsAuthenticated.Authenticated()''].
              Contains mw ''Authenticated'' \<or> Contains mw ''IsAuthenticated''"
    using Contains_Authenticated_call by simp
  show ?thesis
    using scope_escalation [OF a1 a2] scope_escalation [OF b1 b2]
    by (simp add: permissions_of_hasPermission permissions_of_Authenticated)
qed

text \<open>
  The claim without the restriction fails: a chain with an authentication marker and a
  \<open>NotAuthenticated\<close> entry has no requirement at all.
\<close>

theorem scope_escalation_counterexample:
  "Contains ''gates.IsAuthenticated.Authenticated()'' ''Authenticated'' \<and>
   extractPermissionsFromMiddleware ''gates.IsAuthenticated.Authenticated()'' = [] \<and>
   extractPermissionsFromMiddleware ''gates.NotAuthenticated()'' = [] \<and>
   extractSecurity [''gates.IsAuthenticated.Authenticated()'', ''gates.NotAuthenticated()''] = []"
  by code_simp

subsection \<open>Route Graph Builder\<close>

lemma extractHandlerName_other:
  "\<not> is_Ident e \<Longrightarrow> \<not> is_SelectorExpr e \<Longrightarrow> \<not> is_CallExpr e \<Longrightarrow> \<not> is_FuncLit e \<Longrightarrow>
   extractHandlerName e = []"
  by (cases e) auto

lemma findHandler_None:
  "\<forall>j. 1 \<le> j \<and> j \<le> i \<longrightarrow> extractHandlerName (args ! j) = [] \<Longrightarrow> findHandler args i = None"
  by (induction i) auto

lemma nth_in_tl: "1 \<le> j \<Longrightarrow> j < length args \<Longrightarrow> args ! j \<in> set (tl args)"
  by (cases args) (auto simp: nth_Cons split: nat.splits)

lemma Unquote_v1: "Unquote ''\"/v1\"'' = Some ''/v1''"
  by (simp add: Unquote_def)

lemma Unquote_v1_slash: "Unquote ''\"/v1/\"'' = Some ''/v1/''"
  by (simp add: Unquote_def)

lemma Unquote_users: "Unquote ''\"/users\"'' = Some ''/users''"
  by (simp add: Unquote_def)

lemma Unquote_id: "Unquote ''\"/:id\"'' = Some ''/:id''"
  by (simp add: Unquote_def)

lemma Unquote_empty: "Unquote ''\"\"'' = Some []"
  by (simp add: Unquote_def)

lemma Unquote_api: "Unquote ''\"/api\"'' = Some ''/api''"
  by (simp add: Unquote_def)

lemma Split_not_Nil: "Split s sep \<noteq> []"
  by (induction s) (auto split: list.splits)

lemma Split_append_sep: "Split (p @ sep # q) sep = Split p sep @ Split q sep"
proof (induction p)
  case Nil
  then show ?case by simp
next
  case (Cons c p)
  then show ?case using Split_not_Nil [of p sep]
    by (cases "Split p sep") auto
qed

lemma Join_append:
  "xs \<noteq> [] \<Longrightarrow> ys \<noteq> [] \<Longrightarrow> Join (xs @ ys) sep = Join xs sep @ sep @ Join ys sep"
proof (induction xs sep rule: Join.induct)
  case (2 p sep)
  then show ?case by (cases ys) auto
qed auto

lemma OpenAPISpec_normalizePath_append:
  "OpenAPISpec_normalizePath (p @ CHR ''/'' # q) =
   OpenAPISpec_normalizePath p @ ''/'' @ OpenAPISpec_normalizePath q"
  by (simp add: OpenAPISpec_normalizePath_def Split_append_sep Join_append Split_not_Nil)

lemma OpenAPISpec_normalizePath_suffix:
  "OpenAPISpec_normalizePath ''v1/users/:id'' = ''v1/users/{id}''"
  by (simp add: OpenAPISpec_normalizePath_def HasPrefix_def TrimPrefix_def)

lemma normalizePath_users:
  "normalizePath (p @ ''/v1/users'') ''/:id'' = p @ ''/v1/users/:id''"
  by (simp add: normalizePath_def TrimSuffix_def HasSuffix_def HasPrefix_def Let_def)

text \<open>
  Nested groups in general. After \<open>a := root.Group("/v1", mwsA...)\<close> and
  \<open>b := a.Group("/users", mwsB...)\<close>, the call \<open>b.Get("/:id", mw, handler)\<close> yields an
  endpoint whose path is the group path of \<open>root\<close> (empty when \<open>root\<close> names no tracked
  group) followed by \<open>/v1/users/:id\<close>, which the assembler writes with \<open>{id}\<close>. Its
  middleware list is the middleware of \<open>root\<close> when that names a tracked group, then the
  names of \<open>a\<close>'s group call, then those of \<open>b\<close>'s group call, then the endpoint call's
  own, in that order. An argument without a middleware name has no entry.
\<close>

lemma nested_groups_endpoint:
  fixes ctx :: parseContext and root a b :: string and mwsA mwsB :: "expr list"
    and mw handler :: expr
  assumes "extractHandlerName handler \<noteq> []"
  defines "ctx1 \<equiv> handleAssignment ctx [Ident a]
                     [CallExpr (SelectorExpr (Ident root) ''Group'') (BasicLit STRING ''\"/v1\"'' # mwsA)]"
  defines "ctx2 \<equiv> handleAssignment ctx1 [Ident b]
                     [CallExpr (SelectorExpr (Ident a) ''Group'') (BasicLit STRING ''\"/users\"'' # mwsB)]"
  defines "rootPath \<equiv> (case groupPaths ctx root of Some p \<Rightarrow> p | None \<Rightarrow> [])"
  defines "rootMW \<equiv> (case groupPaths ctx root of
                        Some p \<Rightarrow> (case groupMiddleware ctx root of Some m \<Rightarrow> m | None \<Rightarrow> [])
                      | None \<Rightarrow> [])"
  shows "\<exists>ep. parseHTTPMethodCall ctx2
                 (CallExpr (SelectorExpr (Ident b) ''Get'')
                    [BasicLit STRING ''\"/:id\"'', mw, handler]) = Some ep \<and>
              Path ep = rootPath @ ''/v1/users/:id'' \<and>
              OpenAPISpec_normalizePath (Path ep) =
                OpenAPISpec_normalizePath rootPath @ ''/v1/users/{id}'' \<and>
              (groupPaths ctx root = None \<longrightarrow>
                 OpenAPISpec_normalizePath (Path ep) = ''/v1/users/{id}'') \<and>
              Handler ep = extractHandlerName handler \<and>
              Middleware ep = rootMW @ middlewareNames ctx mwsA @ middlewareNames ctx1 mwsB @
                              middlewareNames ctx2 [mw]"
proof -
  have g1: "groupPaths ctx1 a = Some (rootPath @ ''/v1'')"
    and m1: "groupMiddleware ctx1 a = Some (rootMW @ middlewareNames ctx mwsA)"
    unfolding ctx1_def rootPath_def rootMW_def
    by (simp_all add: handleAssignment_def trackGroup_def Unquote_v1 Let_def split: option.splits)
  have g2: "groupPaths ctx2 b = Some (rootPath @ ''/v1/users'')"
    and m2: "groupMiddleware ctx2 b =
               Some (rootMW @ middlewareNames ctx mwsA @ middlewareNames ctx1 mwsB)"
    unfolding ctx2_def
    by (simp_all add: handleAssignment_def trackGroup_def Unquote_users Let_def g1 m1)
  have n: "OpenAPISpec_normalizePath (rootPath @ ''/v1/users/:id'') =
           OpenAPISpec_normalizePath rootPath @ ''/v1/users/{id}''"
    using OpenAPISpec_normalizePath_append [of rootPath "''v1/users/:id''"]
    by (simp add: OpenAPISpec_normalizePath_suffix)
  have r: "OpenAPISpec_normalizePath ''/v1/users/:id'' = ''/v1/users/{id}''"
    by (simp add: OpenAPISpec_normalizePath_def HasPrefix_def TrimPrefix_def)
  have e: "groupPaths ctx root = None \<Longrightarrow> rootPath = []"
    by (simp add: rootPath_def)
  have p: "parseHTTPMethodCall ctx2
             (CallExpr (SelectorExpr (Ident b) ''Get'') [BasicLit STRING ''\"/:id\"'', mw, handler]) =
           Some \<lparr>Path = rootPath @ ''/v1/users/:id'', Method = ''Get'',
                  Handler = extractHandlerName handler, MSName = msName ctx2,
                  Middleware = (rootMW @ middlewareNames ctx mwsA @ middlewareNames ctx1 mwsB) @
                               middlewareNames ctx2 [mw]\<rparr>"
    using assms(1) normalizePath_users [of rootPath]
    by (simp add: g2 m2 Unquote_id isHTTPMethod_def Let_def)
  show ?thesis
    unfolding p using n r e by auto
qed

text \<open>With the application object as \<open>root\<close>, which has no group call.\<close>

lemma nested_groups_endpoint_app:
  "extractHandlerName (SelectorExpr (Ident ''c'') ''getUser'') \<noteq> [] \<and>
   groupPaths (newParseContext ''ms_users'') ''app'' = None \<and>
   (let ctx1 = handleAssignment (newParseContext ''ms_users'') [Ident ''a'']
                 [CallExpr (SelectorExpr (Ident ''app'') ''Group'')
                    [BasicLit STRING ''\"/v1\"'', Ident ''logger'']];
        ctx2 = handleAssignment ctx1 [Ident ''b'']
                 [CallExpr (SelectorExpr (Ident ''a'') ''Group'')
                    [BasicLit STRING ''\"/users\"'', SelectorExpr (Ident ''gates'') ''IsAuthenticated'']]
    in \<exists>ep. parseHTTPMethodCall ctx2
                (CallExpr (SelectorExpr (Ident ''b'') ''Get'')
                   [BasicLit STRING ''\"/:id\"'',
                    CallExpr (Ident ''hasPermission'') [BasicLit STRING ''\"users:read\"''],
                    SelectorExpr (Ident ''c'') ''getUser'']) = Some ep \<and>
             OpenAPISpec_normalizePath (Path ep) = ''/v1/users/{id}'' \<and>
             Handler ep = ''getUser'' \<and>
             Middleware ep = [''logger'', ''gates.IsAuthenticated'', ''hasPermission(\"users:read\")''])"
proof -
  have h: "extractHandlerName (SelectorExpr (Ident ''c'') ''getUser'') \<noteq> []" by simp
  have g: "groupPaths (newParseContext ''ms_users'') ''app'' = None"
    by (simp add: newParseContext_def)
  show ?thesis
    using nested_groups_endpoint [where ctx = "newParseContext ''ms_users''" and a = "''a''"
        and root = "''app''" and mwsA = "[Ident ''logger'']" and b = "''b''"
        and mwsB = "[SelectorExpr (Ident ''gates'') ''IsAuthenticated'']"
        and mw = "CallExpr (Ident ''hasPermission'') [BasicLit STRING ''\"users:read\"'']"
        and handler = "SelectorExpr (Ident ''c'') ''getUser''", OF h] g h
    by (simp add: Let_def middlewareNames_def handleAssignment_def trackGroup_def
          newParseContext_def Unquote_v1 Unquote_users Unquote_id isHTTPMethod_def
          normalizePath_def TrimSuffix_def HasSuffix_def HasPrefix_def TrimPrefix_def
          OpenAPISpec_normalizePath_def)
qed

text \<open>
  With \<open>root := app.Group("/api", auth)\<close>: the group is tracked, its path prefixes the
  endpoint's and its middleware comes first.
\<close>

lemma registered_root_inherited:
  "groupPaths apiRootContext ''root'' = Some ''/api'' \<and>
   groupMiddleware apiRootContext ''root'' = Some [''auth''] \<and>
   map_option (OpenAPISpec_normalizePath \<circ> Path) (parseHTTPMethodCall apiUsersContext getUserCall) =
     Some ''/api/v1/users/{id}'' \<and>
   map_option Middleware (parseHTTPMethodCall apiUsersContext getUserCall) =
     Some [''auth'', ''mw'']"
  by (simp add: apiRootContext_def apiUsersContext_def getUserCall_def Let_def middlewareNames_def
        handleAssignment_def trackGroup_def newParseContext_def Unquote_api Unquote_v1
        Unquote_users Unquote_id isHTTPMethod_def normalizePath_def TrimSuffix_def HasSuffix_def
        HasPrefix_def TrimPrefix_def OpenAPISpec_normalizePath_def)

text \<open>
  Claim C3 (group inheritance), where the code departs from it. A group call is tracked
  only when its path argument is a string literal that is not empty. So after
  \<open>root := app.Group("", mwsRoot...)\<close>, a group that adds middleware and no prefix, the
  variable \<open>root\<close> names no group. With \<open>a := root.Group("/v1", mwsA...)\<close> and
  \<open>b := a.Group("/users", mwsB...)\<close> the call \<open>b.Get("/:id", mw, handler)\<close> then yields
  the endpoint at \<open>/v1/users/{id}\<close>, but its middleware list starts with the names of
  \<open>a\<close>'s group call: the middleware of \<open>root\<close>'s group call is not in it. The same
  holds for a path argument that is not a string literal.
\<close>

theorem untracked_root_group:
  fixes ctx :: parseContext and root a b :: string and mwsRoot mwsA mwsB :: "expr list"
    and app rootPath mw handler :: expr
  assumes "extractStringLiteral rootPath = []"
    and "groupPaths ctx root = None"
    and "extractHandlerName handler \<noteq> []"
  defines "ctx0 \<equiv> handleAssignment ctx [Ident root]
                     [CallExpr (SelectorExpr app ''Group'') (rootPath # mwsRoot)]"
  defines "ctx1 \<equiv> handleAssignment ctx0 [Ident a]
                     [CallExpr (SelectorExpr (Ident root) ''Group'') (BasicLit STRING ''\"/v1\"'' # mwsA)]"
  defines "ctx2 \<equiv> handleAssignment ctx1 [Ident b]
                     [CallExpr (SelectorExpr (Ident a) ''Group'') (BasicLit STRING ''\"/users\"'' # mwsB)]"
  shows "groupPaths ctx0 root = None \<and>
         groupMiddleware ctx0 root = groupMiddleware ctx root \<and>
         (\<exists>ep. parseHTTPMethodCall ctx2
                  (CallExpr (SelectorExpr (Ident b) ''Get'')
                     [BasicLit STRING ''\"/:id\"'', mw, handler]) = Some ep \<and>
               OpenAPISpec_normalizePath (Path ep) = ''/v1/users/{id}'' \<and>
               Middleware ep = middlewareNames ctx0 mwsA @ middlewareNames ctx1 mwsB @
                               middlewareNames ctx2 [mw])"
proof -
  have g: "groupPaths ctx0 root = None"
    and m: "groupMiddleware ctx0 root = groupMiddleware ctx root"
    unfolding ctx0_def using assms(1,2)
    by (simp_all add: handleAssignment_def trackGroup_def Let_def)
  note n = nested_groups_endpoint [where ctx = ctx0 and root = root and a = a and b = b
      and mwsA = mwsA and mwsB = mwsB and mw = mw and handler = handler, OF assms(3),
      folded ctx1_def, folded ctx2_def]
  from n obtain ep where
    ep: "parseHTTPMethodCall ctx2
           (CallExpr (SelectorExpr (Ident b) ''Get'')
              [BasicLit STRING ''\"/:id\"'', mw, handler]) = Some ep"
      "groupPaths ctx0 root = None \<longrightarrow> OpenAPISpec_normalizePath (Path ep) = ''/v1/users/{id}''"
      "Middleware ep =
         (case groupPaths ctx0 root of
            Some p \<Rightarrow> (case groupMiddleware ctx0 root of Some m \<Rightarrow> m | None \<Rightarrow> [])
          | None \<Rightarrow> []) @
         middlewareNames ctx0 mwsA @ middlewareNames ctx1 mwsB @ middlewareNames ctx2 [mw]"
    by (elim exE conjE)
  from ep(2) g have p: "OpenAPISpec_normalizePath (Path ep) = ''/v1/users/{id}''"
    by simp
  from ep(3) g
  have q: "Middleware ep = middlewareNames ctx0 mwsA @ middlewareNames ctx1 mwsB @
                          middlewareNames ctx2 [mw]"
    by simp
  from ep(1) p q
  have "\<exists>ep. parseHTTPMethodCall ctx2
                (CallExpr (SelectorExpr (Ident b) ''Get'')
                   [BasicLit STRING ''\"/:id\"'', mw, handler]) = Some ep \<and>
             OpenAPISpec_normalizePath (Path ep) = ''/v1/users/{id}'' \<and>
             Middleware ep = middlewareNames ctx0 mwsA @ middlewareNames ctx1 mwsB @
                             middlewareNames ctx2 [mw]"
    by (intro exI [of _ ep] conjI)
  with g m show ?thesis by blast
qed

theorem untracked_root_group_witness:
  "extractStringLiteral (BasicLit STRING ''\"\"'') = [] \<and>
   groupPaths (newParseContext ''ms_users'') ''root'' = None \<and>
   extractHandlerName (SelectorExpr (Ident ''c'') ''getUser'') \<noteq> [] \<and>
   (let ctx0 = handleAssignment (newParseContext ''ms_users'') [Ident ''root'']
                 [CallExpr (SelectorExpr (Ident ''app'') ''Group'')
                    [BasicLit STRING ''\"\"'', Ident ''auth'']];
        ctx1 = handleAssignment ctx0 [Ident ''a'']
                 [CallExpr (SelectorExpr (Ident ''root'') ''Group'')
                    [BasicLit STRING ''\"/v1\"'', Ident ''logger'']];
        ctx2 = handleAssignment ctx1 [Ident ''b'']
                 [CallExpr (SelectorExpr (Ident ''a'') ''Group'') [BasicLit STRING ''\"/users\"'']]
    in groupPaths ctx0 ''root'' = None \<and>
       groupMiddleware ctx0 ''root'' = None \<and>
       (\<exists>ep. parseHTTPMethodCall ctx2
                (CallExpr (SelectorExpr (Ident ''b'') ''Get'')
                   [BasicLit STRING ''\"/:id\"'', Ident ''mw'',
                    SelectorExpr (Ident ''c'') ''getUser'']) = Some ep \<and>
             OpenAPISpec_normalizePath (Path ep) = ''/v1/users/{id}'' \<and>
             Middleware ep = [''logger'', ''mw'']))"
proof -
  have l: "extractStringLiteral (BasicLit STRING ''\"\"'') = []"
    by (simp add: Unquote_empty)
  have g: "groupPaths (newParseContext ''ms_users'') ''root'' = None"
    by (simp add: newParseContext_def)
  have h: "extractHandlerName (SelectorExpr (Ident ''c'') ''getUser'') \<noteq> []" by simp
  show ?thesis
    using untracked_root_group [where ctx = "newParseContext ''ms_users''" and root = "''root''"
        and app = "Ident ''app''" and rootPath = "BasicLit STRING ''\"\"''"
        and mwsRoot = "[Ident ''auth'']" and a = "''a''" and mwsA = "[Ident ''logger'']"
        and b = "''b''" and mwsB = "[]" and mw = "Ident ''mw''"
        and handler = "SelectorExpr (Ident ''c'') ''getUser''", OF l g h] l g h
    by (simp add: Let_def middlewareNames_def handleAssignment_def trackGroup_def
          newParseContext_def Unquote_empty Unquote_v1 Unquote_users Unquote_id isHTTPMethod_def
          normalizePath_def TrimSuffix_def HasSuffix_def HasPrefix_def TrimPrefix_def
          OpenAPISpec_normalizePath_def)
qed

text \<open>
  Claim C4 (path normalization), where the code departs from it. The path of a nested
  group is the parent's path and the child's path put together as they are, with no
  slash trimmed or added. So after \<open>a := app.Group("/v1/")\<close> and
  \<open>b := a.Group("/users")\<close> the group \<open>b\<close> has the path \<open>/v1//users\<close> and
  \<open>b.Get("/:id", h)\<close> is recorded at \<open>/v1//users/:id\<close>, while the same two paths given
  to \<open>normalizePath\<close>, which joins a group path and an endpoint path, yield \<open>/v1/users\<close>.
\<close>

theorem nested_group_path_raw:
  assumes "groupPaths ctx parent = Some parentPath"
    and "extractStringLiteral pathArg \<noteq> []"
  shows "groupPaths (handleAssignment ctx [Ident child]
                       [CallExpr (SelectorExpr (Ident parent) ''Group'') (pathArg # mws)]) child =
           Some (parentPath @ extractStringLiteral pathArg)"
  using assms by (simp add: handleAssignment_def trackGroup_def Let_def)

theorem nested_group_path_raw_witness:
  "(let ctx1 = handleAssignment (newParseContext ''ms_users'') [Ident ''a'']
                 [CallExpr (SelectorExpr (Ident ''app'') ''Group'') [BasicLit STRING ''\"/v1/\"'']];
        ctx2 = handleAssignment ctx1 [Ident ''b'']
                 [CallExpr (SelectorExpr (Ident ''a'') ''Group'') [BasicLit STRING ''\"/users\"'']]
    in groupPaths ctx1 ''a'' = Some ''/v1/'' \<and>
       extractStringLiteral (BasicLit STRING ''\"/users\"'') = ''/users'' \<and>
       groupPaths ctx2 ''b'' = Some ''/v1//users'' \<and>
       map_option Path
         (parseHTTPMethodCall ctx2
            (CallExpr (SelectorExpr (Ident ''b'') ''Get'') [BasicLit STRING ''\"/:id\"'', Ident ''h'']))
         = Some ''/v1//users/:id'') \<and>
   normalizePath ''/v1/'' ''/users'' = ''/v1/users''"
proof -
  let ?ctx1 = "handleAssignment (newParseContext ''ms_users'') [Ident ''a'']
                 [CallExpr (SelectorExpr (Ident ''app'') ''Group'') [BasicLit STRING ''\"/v1/\"'']]"
  have g: "groupPaths ?ctx1 ''a'' = Some ''/v1/''"
    by (simp add: handleAssignment_def trackGroup_def newParseContext_def Unquote_v1_slash
        middlewareNames_def)
  have l: "extractStringLiteral (BasicLit STRING ''\"/users\"'') \<noteq> []"
    by (simp add: Unquote_users)
  have n: "normalizePath ''/v1/'' ''/users'' = ''/v1/users''"
    by (simp add: normalizePath_def TrimSuffix_def HasSuffix_def HasPrefix_def)
  from nested_group_path_raw [OF g l, of "''b''" "[]"]
  have g2: "groupPaths (handleAssignment ?ctx1 [Ident ''b'']
                 [CallExpr (SelectorExpr (Ident ''a'') ''Group'') [BasicLit STRING ''\"/users\"'']]) ''b'' =
            Some ''/v1//users''"
    by (simp add: Unquote_users)
  have p: "normalizePath ''/v1//users'' ''/:id'' = ''/v1//users/:id''"
    by (simp add: normalizePath_def TrimSuffix_def HasSuffix_def HasPrefix_def)
  show ?thesis
    using g g2 n p
    by (simp add: Let_def Unquote_users Unquote_id isHTTPMethod_def split: option.splits)
qed

text \<open>
  Claim C10 (calls without a handler). An HTTP-verb call with fewer than two arguments,
  or whose arguments after the path are neither identifiers, selectors, calls nor
  function literals, produces no endpoint, and the walk leaves the endpoint list as it
  was.
\<close>

theorem no_handler_no_endpoint:
  assumes "length args < 2 \<or>
           (\<forall>e\<in>set (tl args). \<not> is_Ident e \<and> \<not> is_SelectorExpr e \<and>
                               \<not> is_CallExpr e \<and> \<not> is_FuncLit e)"
  shows "parseHTTPMethodCall ctx (CallExpr (SelectorExpr x method) args) = None \<and>
         inspectNode (ctx, endpoints) (ExprNode (CallExpr (SelectorExpr x method) args)) =
           (ctx, endpoints)"
proof -
  have "parseHTTPMethodCall ctx (CallExpr (SelectorExpr x method) args) = None"
  proof (cases "length args < 2")
    case True
    then show ?thesis by simp
  next
    case False
    with assms have noh: "\<forall>e\<in>set (tl args). extractHandlerName e = []"
      using extractHandlerName_other by blast
    have "\<forall>j. 1 \<le> j \<and> j \<le> length args - 1 \<longrightarrow> extractHandlerName (args ! j) = []"
    proof (intro allI impI)
      fix j assume "1 \<le> j \<and> j \<le> length args - 1"
      with False have "1 \<le> j" "j < length args" by auto
      then have "args ! j \<in> set (tl args)" by (rule nth_in_tl)
      with noh show "extractHandlerName (args ! j) = []" by blast
    qed
    then have "findHandler args (length args - 1) = None" by (rule findHandler_None)
    then show ?thesis by (simp add: Let_def)
  qed
  then show ?thesis by simp
qed

theorem no_handler_no_endpoint_witness:
  "parseHTTPMethodCall (newParseContext ''ms_users'')
     (CallExpr (SelectorExpr (Ident ''app'') ''Get'')
        [BasicLit STRING ''\"/users\"'', BasicLit STRING ''\"/v1\"'']) = None \<and>
   parseHTTPMethodCall (newParseContext ''ms_users'')
     (CallExpr (SelectorExpr (Ident ''app'') ''Get'') [BasicLit STRING ''\"/users\"'']) = None \<and>
   isHTTPMethod ''Get''"
proof -
  have a: "length [BasicLit STRING ''\"/users\"'', BasicLit STRING ''\"/v1\"''] < 2 \<or>
           (\<forall>e\<in>set (tl [BasicLit STRING ''\"/users\"'', BasicLit STRING ''\"/v1\"'']).
              \<not> is_Ident e \<and> \<not> is_SelectorExpr e \<and> \<not> is_CallExpr e \<and> \<not> is_FuncLit e)"
    by simp
  have b: "length [BasicLit STRING ''\"/users\"''] < 2 \<or>
           (\<forall>e\<in>set (tl [BasicLit STRING ''\"/users\"'']).
              \<not> is_Ident e \<and> \<not> is_SelectorExpr e \<and> \<not> is_CallExpr e \<and> \<not> is_FuncLit e)"
    by simp
  show ?thesis
    using no_handler_no_endpoint [OF a] no_handler_no_endpoint [OF b]
    by (simp add: isHTTPMethod_def)
qed

subsection \<open>Type/Schema Resolver: termination\<close>

lemma finite_fieldTypeNames: "finite (fieldTypeNames e)"
  by (induction e rule: fieldTypeNames.induct) auto

lemma finite_specTypeNames: "finite (specTypeNames sp)"
  by (induction sp rule: specTypeNames.induct) (auto simp: finite_fieldTypeNames)

lemma finite_treeTypeNames: "finite (treeTypeNames tree)"
  by (auto simp: treeTypeNames_def finite_specTypeNames split: option.splits)

lemma parseFieldType_growing:
  "growing rt \<Longrightarrow> parseFieldType rt r e = Some (s, r') \<Longrightarrow> processed r \<subseteq> processed r'"
proof (induction rt r e arbitrary: s r' rule: parseFieldType.induct)
  case (1 rt r name)
  then show ?case by (auto simp: growing_def split: if_splits)
next
  case (2 rt r pkg sel)
  then show ?case by (auto simp: growing_def Let_def split: if_splits)
next
  case (3 rt r elt)
  then show ?case by (auto split: option.splits)
next
  case (4 rt r k v)
  then show ?case by (auto split: option.splits)
qed auto

lemma parseField_growing:
  "growing rt \<Longrightarrow> parseField rt r f schema = Some (s, r') \<Longrightarrow> processed r \<subseteq> processed r'"
  by (auto simp: parseField_def Let_def split: prod.splits if_splits option.splits
           dest: parseFieldType_growing)

lemma parseFields_growing:
  "growing rt \<Longrightarrow> parseFields rt r fs schema = Some (s, r') \<Longrightarrow> processed r \<subseteq> processed r'"
proof (induction fs arbitrary: r schema)
  case Nil
  then show ?case by simp
next
  case (Cons f fs)
  then show ?case
    by (auto split: option.splits dest!: parseField_growing)
qed

lemma parseFileForType_growing:
  "growing rt \<Longrightarrow> parseFileForType rt r file typeName = Some (res, r') \<Longrightarrow>
   processed r \<subseteq> processed r'"
  by (auto simp: parseFileForType_def parseStruct_def
           split: option.splits prod.splits expr.splits dest: parseFields_growing)

lemma findInFiles_growing:
  "growing rt \<Longrightarrow> findInFiles rt r files structName = Some (res, r') \<Longrightarrow>
   processed r \<subseteq> processed r'"
proof (induction files arbitrary: r)
  case Nil
  then show ?case by simp
next
  case (Cons f files)
  then show ?case
    by (auto split: option.splits parseResult.splits dest!: parseFileForType_growing) blast+
qed

lemma findAndParseType_growing:
  "growing rt \<Longrightarrow> findAndParseType rt tree r typeName = Some (res, r') \<Longrightarrow>
   processed r \<subseteq> processed r'"
  by (auto simp: findAndParseType_def Let_def dest: findInFiles_growing)

lemma ResolveType_growing: "growing (ResolveType depth tree)"
proof (induction depth)
  case 0
  then show ?case by (simp add: growing_def)
next
  case (Suc depth)
  show ?case
    unfolding growing_def
  proof (intro allI impI)
    fix r name s r'
    assume a: "ResolveType (Suc depth) tree r name = Some (s, r')"
    show "processed r \<subseteq> processed r'"
    proof (cases "Type (resolveBuiltInType name) \<noteq> [] \<or> name \<in> processed r")
      case True
      with a show ?thesis by (auto split: if_splits)
    next
      case False
      with a obtain res r2 where
        f: "findAndParseType (ResolveType depth tree) tree
              (r\<lparr>processed := insert name (processed r)\<rparr>) name = Some (res, r2)"
        and p: "processed r' = processed r2"
        by (auto split: option.splits)
      from findAndParseType_growing [OF Suc f] p show ?thesis by auto
    qed
  qed
qed


lemma card_Diff_processed:
  "finite V \<Longrightarrow> processed r \<subseteq> processed r' \<Longrightarrow>
   card (V - processed r') \<le> card (V - processed r)"
  by (rule card_mono) auto

lemma parseFieldType_returning:
  "returning rt V k \<Longrightarrow> fieldTypeNames e \<subseteq> V \<Longrightarrow>
   card (V - processed r) \<le> k \<Longrightarrow> \<exists>y. parseFieldType rt r e = Some y"
proof (induction rt r e rule: parseFieldType.induct)
  case (1 rt r name)
  then show ?case by (auto simp: returning_def)
next
  case (2 rt r pkg sel)
  then show ?case by (auto simp: returning_def Let_def)
next
  case (3 rt r elt)
  then show ?case by (auto split: option.splits)
next
  case (4 rt r k v)
  then show ?case by (auto split: option.splits)
qed auto

lemma parseField_returning:
  "returning rt V k \<Longrightarrow> fieldTypeNames (fieldType f) \<subseteq> V \<Longrightarrow>
   card (V - processed r) \<le> k \<Longrightarrow> \<exists>y. parseField rt r f schema = Some y"
  using parseFieldType_returning [of rt V k "fieldType f" r]
  by (auto simp: parseField_def Let_def split: prod.splits option.splits)

lemma parseFields_returning:
  "finite V \<Longrightarrow> growing rt \<Longrightarrow> returning rt V k \<Longrightarrow>
   \<forall>f\<in>set fs. fieldTypeNames (fieldType f) \<subseteq> V \<Longrightarrow>
   card (V - processed r) \<le> k \<Longrightarrow> \<exists>y. parseFields rt r fs schema = Some y"
proof (induction fs arbitrary: r schema)
  case Nil
  then show ?case by simp
next
  case (Cons f fs)
  from Cons.prems obtain schema' r' where
    p: "parseField rt r f schema = Some (schema', r')"
    using parseField_returning [of rt V k f r schema] by auto
  from parseField_growing [OF Cons.prems(2) p] Cons.prems(1,5)
  have "card (V - processed r') \<le> k"
    using card_Diff_processed [of V r r'] by simp
  with Cons.IH [of r' schema'] Cons.prems p show ?case by simp
qed

lemma firstTypeSpec_in_set:
  "firstTypeSpec specs typeName = Some t \<Longrightarrow> TypeSpec typeName t \<in> set specs"
  by (induction specs typeName rule: firstTypeSpec.induct) (auto split: if_splits)

lemma findTypeSpec_in_set:
  "findTypeSpec node typeName target = Some (t, doc) \<Longrightarrow>
   target = Some (t, doc) \<or> (\<exists>d\<in>set node. TypeSpec typeName t \<in> set (Specs d))"
  by (induction node arbitrary: target)
     (auto split: option.splits dest: firstTypeSpec_in_set)

lemma parseFileForType_returning:
  assumes "finite V" "growing rt" "returning rt V k"
    and "f \<in> set tree" "treeTypeNames tree \<subseteq> V" "card (V - processed r) \<le> k"
  shows "\<exists>y. parseFileForType rt r f typeName = Some y"
proof (cases "fileDecls f")
  case None
  then show ?thesis by (simp add: parseFileForType_def)
next
  case (Some node)
  show ?thesis
  proof (cases "findTypeSpec node typeName None")
    case None
    with Some show ?thesis by (simp add: parseFileForType_def)
  next
    case (Some td)
    obtain t doc where td: "td = (t, doc)" by (cases td)
    show ?thesis
    proof (cases t)
      case (StructType fieldList)
      from Some td findTypeSpec_in_set [of node typeName None t doc]
      obtain d where d: "d \<in> set node" "TypeSpec typeName t \<in> set (Specs d)" by auto
      have "specTypeNames (TypeSpec typeName t) \<subseteq> treeTypeNames tree"
        using d assms(4) \<open>fileDecls f = Some node\<close>
        unfolding treeTypeNames_def by (force split: option.splits)
      with assms(5) StructType
      have "\<forall>fd\<in>set fieldList. fieldTypeNames (fieldType fd) \<subseteq> V" by auto
      from parseFields_returning [OF assms(1,2,3) this assms(6)]
      show ?thesis
        using \<open>fileDecls f = Some node\<close> Some td StructType
        by (auto simp: parseFileForType_def parseStruct_def split: option.splits)
    qed (use \<open>fileDecls f = Some node\<close> Some td in
          \<open>auto simp: parseFileForType_def split: expr.splits\<close>)
  qed
qed

lemma findInFiles_returning:
  assumes "finite V" "growing rt" "returning rt V k" "treeTypeNames tree \<subseteq> V"
  shows "set files \<subseteq> set tree \<Longrightarrow> card (V - processed r) \<le> k \<Longrightarrow>
         \<exists>y. findInFiles rt r files structName = Some y"
proof (induction files arbitrary: r)
  case Nil
  then show ?case by simp
next
  case (Cons f files)
  from Cons.prems have "f \<in> set tree" by simp
  from parseFileForType_returning [OF assms(1,2,3) this assms(4) Cons.prems(2)]
  obtain res r' where p: "parseFileForType rt r f structName = Some (res, r')" by force
  from parseFileForType_growing [OF assms(2) p] Cons.prems(2) assms(1)
  have "card (V - processed r') \<le> k"
    using card_Diff_processed [of V r r'] by simp
  with Cons.IH [of r'] Cons.prems(1) p show ?case
    by (cases res) auto
qed

lemma findAndParseType_returning:
  assumes "finite V" "growing rt" "returning rt V k" "treeTypeNames tree \<subseteq> V"
    and "card (V - processed r) \<le> k"
  shows "\<exists>y. findAndParseType rt tree r typeName = Some y"
  unfolding findAndParseType_def Let_def
  by (rule findInFiles_returning [OF assms(1,2,3,4) _ assms(5)]) (auto simp: findGoFiles_def)

lemma ResolveType_returning:
  assumes "finite V" "treeTypeNames tree \<subseteq> V"
  shows "returning (ResolveType (Suc k) tree) V k"
proof (induction k)
  case 0
  show ?case
    unfolding returning_def
  proof (intro allI impI)
    fix r :: TypeResolver and name
    assume "name \<in> V \<and> card (V - processed r) \<le> 0"
    with assms(1) have "name \<in> processed r" by auto
    then show "\<exists>y. ResolveType (Suc 0) tree r name = Some y" by simp
  qed
next
  case (Suc k)
  show ?case
    unfolding returning_def
  proof (intro allI impI)
    fix r :: TypeResolver and name
    assume a: "name \<in> V \<and> card (V - processed r) \<le> Suc k"
    show "\<exists>y. ResolveType (Suc (Suc k)) tree r name = Some y"
    proof (cases "Type (resolveBuiltInType name) \<noteq> [] \<or> name \<in> processed r")
      case True
      then show ?thesis by auto
    next
      case False
      with a have "name \<in> V - processed r" by simp
      with assms(1) have "card (V - insert name (processed r)) < card (V - processed r)"
        by (intro psubset_card_mono) auto
      with a have c: "card (V - processed (r\<lparr>processed := insert name (processed r)\<rparr>)) \<le> k"
        by simp
      from findAndParseType_returning [OF assms(1) ResolveType_growing Suc assms(2) c, of name]
      obtain res r' where
        "findAndParseType (ResolveType (Suc k) tree) tree
           (r\<lparr>processed := insert name (processed r)\<rparr>) name = Some (res, r')" by force
      with False show ?thesis by (cases res) auto
    qed
  qed
qed

theorem ResolveType_terminates:
  "\<exists>depth s r'. ResolveType depth tree r typeName = Some (s, r')"
proof -
  let ?V = "insert typeName (treeTypeNames tree)"
  have "returning (ResolveType (Suc (card ?V)) tree) ?V (card ?V)"
    by (rule ResolveType_returning) (auto simp: finite_treeTypeNames)
  moreover have "card (?V - processed r) \<le> card ?V"
    by (rule card_mono) (auto simp: finite_treeTypeNames)
  ultimately obtain y where "ResolveType (Suc (card ?V)) tree r typeName = Some y"
    unfolding returning_def by blast
  then show ?thesis by (cases y) blast
qed

lemma cleanTypeName_Feed: "cleanTypeName ''Feed'' = ''Feed''"
  by code_simp

lemma fieldTagInfo_id: "fieldTagInfo (Field [''ID''] (Ident ''string'') (Some ''`json:\"id\"`'') None) = (''id'', False, False)"
  by code_simp
lemma fieldTagInfo_parent: "fieldTagInfo (Field [''Parent''] (StarExpr (Ident ''Feed'')) (Some ''`json:\"parent,omitempty\"`'') None) = (''parent'', True, False)"
  by code_simp
lemma fieldTagInfo_children: "fieldTagInfo (Field [''Children''] (ArrayType (Ident ''Feed'')) (Some ''`json:\"children\"`'') None) = (''children'', False, False)"
  by code_simp

lemma Feed_not_builtin: "Type (resolveBuiltInType ''Feed'') = []"
  by (simp add: resolveBuiltInType_def emptySchema_def)
lemma string_builtin: "resolveBuiltInType ''string'' = typeSchema ''string''"
  by (simp add: resolveBuiltInType_def)

lemma feed_resolves:
  "ResolveType 2 [feedFile] NewTypeResolver ''Feed'' =
     Some (refSchema ''Feed'', \<lparr>schemas = [(''Feed'', feedSchema)], processed = {''Feed''}\<rparr>)"
  by (simp add: numeral_2_eq_2 NewTypeResolver_def findAndParseType_def Contains_def HasPrefix_def
      findGoFiles_def feedFile_def HasSuffix_def parseFileForType_def parseStruct_def
      parseField_def fieldTagInfo_id fieldTagInfo_parent fieldTagInfo_children
      Feed_not_builtin string_builtin cleanTypeName_Feed typeSchema_def refSchema_def
      withProperty_def withRequired_def feedSchema_def)

lemma feed_depth1: "ResolveType 1 [feedFile] NewTypeResolver ''Feed'' = None"
  by (simp add: NewTypeResolver_def findAndParseType_def Contains_def HasPrefix_def
      findGoFiles_def feedFile_def HasSuffix_def parseFileForType_def parseStruct_def
      parseField_def fieldTagInfo_id fieldTagInfo_parent fieldTagInfo_children
      Feed_not_builtin string_builtin cleanTypeName_Feed typeSchema_def refSchema_def
      withProperty_def withRequired_def feedSchema_def)

text \<open>
  Claim C8 (cycle safety). \<open>ResolveType\<close> returns on every type name, in every models
  directory and from every resolver state, so in particular on a struct whose fields
  mention its own type. The mechanism: for a name that is marked as processed and is not
  built in, the call returns the reference to the type's schema name at once and leaves
  the resolver as it is, and so a field of that type, of a pointer to it or of a slice of
  it resolves to that reference. The name is marked before the fields are parsed.
\<close>

theorem resolve_cycle_safe:
  "(\<exists>depth s r'. ResolveType depth tree r typeName = Some (s, r')) \<and>
   (typeName \<in> processed r \<and> Type (resolveBuiltInType typeName) = [] \<longrightarrow>
      ResolveType (Suc depth) tree r typeName = Some (refSchema (cleanTypeName typeName), r) \<and>
      parseFieldType (ResolveType (Suc depth) tree) r (Ident typeName) =
        Some (refSchema (cleanTypeName typeName), r) \<and>
      parseFieldType (ResolveType (Suc depth) tree) r (StarExpr (Ident typeName)) =
        Some (refSchema (cleanTypeName typeName), r) \<and>
      parseFieldType (ResolveType (Suc depth) tree) r (ArrayType (Ident typeName)) =
        Some (SchemaSpec ''array'' [] [] [] [] [] (Some (refSchema (cleanTypeName typeName))) [] None, r))"
  using ResolveType_terminates [of tree r typeName] by simp

theorem resolve_cycle_safe_witness:
  "ResolveType 2 [feedFile] NewTypeResolver ''Feed'' =
     Some (refSchema ''Feed'', \<lparr>schemas = [(''Feed'', feedSchema)], processed = {''Feed''}\<rparr>) \<and>
   ''Feed'' \<in> processed (NewTypeResolver\<lparr>processed := {''Feed''}\<rparr>) \<and>
   Type (resolveBuiltInType ''Feed'') = [] \<and>
   parseFieldType (ResolveType 1 [feedFile]) (NewTypeResolver\<lparr>processed := {''Feed''}\<rparr>)
     (StarExpr (Ident ''Feed'')) =
     Some (refSchema ''Feed'', NewTypeResolver\<lparr>processed := {''Feed''}\<rparr>)"
  using resolve_cycle_safe [of "[feedFile]" "NewTypeResolver\<lparr>processed := {''Feed''}\<rparr>" "''Feed''" 0]
    feed_resolves Feed_not_builtin
  by (simp add: cleanTypeName_Feed)

subsection \<open>Type/Schema Resolver: the depth bound\<close>

text \<open>
  A result of \<open>ResolveType\<close> does not depend on the bound: a larger bound gives the same
  result.
\<close>

lemma parseFieldType_extends:
  "extends rt rt' \<Longrightarrow> parseFieldType rt r e = Some y \<Longrightarrow> parseFieldType rt' r e = Some y"
proof (induction rt r e arbitrary: y rule: parseFieldType.induct)
  case (1 rt r name)
  then show ?case by (cases y) (auto simp: extends_def split: if_splits)
next
  case (2 rt r pkg sel)
  then show ?case by (cases y) (auto simp: extends_def Let_def split: if_splits)
next
  case (3 rt r elt)
  then show ?case by (auto split: option.splits)
next
  case (4 rt r k v)
  then show ?case by (auto split: option.splits)
qed auto

lemma parseField_extends:
  "extends rt rt' \<Longrightarrow> parseField rt r f schema = Some y \<Longrightarrow> parseField rt' r f schema = Some y"
  by (auto simp: parseField_def Let_def split: prod.splits if_splits option.splits
           dest: parseFieldType_extends)

lemma parseFields_extends:
  "extends rt rt' \<Longrightarrow> parseFields rt r fs schema = Some y \<Longrightarrow>
   parseFields rt' r fs schema = Some y"
proof (induction fs arbitrary: r schema)
  case Nil
  then show ?case by simp
next
  case (Cons f fs)
  then show ?case
    by (auto split: option.splits dest: parseField_extends)
qed

lemma parseFileForType_extends:
  "extends rt rt' \<Longrightarrow> parseFileForType rt r f typeName = Some y \<Longrightarrow>
   parseFileForType rt' r f typeName = Some y"
  by (auto simp: parseFileForType_def parseStruct_def
           split: option.splits prod.splits expr.splits dest: parseFields_extends)

lemma findInFiles_extends:
  "extends rt rt' \<Longrightarrow> findInFiles rt r files structName = Some y \<Longrightarrow>
   findInFiles rt' r files structName = Some y"
proof (induction files arbitrary: r)
  case Nil
  then show ?case by simp
next
  case (Cons f files)
  then show ?case
    by (auto split: option.splits parseResult.splits dest: parseFileForType_extends)
qed

lemma findAndParseType_extends:
  "extends rt rt' \<Longrightarrow> findAndParseType rt tree r typeName = Some y \<Longrightarrow>
   findAndParseType rt' tree r typeName = Some y"
  by (auto simp: findAndParseType_def Let_def dest: findInFiles_extends)

lemma ResolveType_Suc_extends: "extends (ResolveType depth tree) (ResolveType (Suc depth) tree)"
proof (induction depth)
  case 0
  then show ?case by (simp add: extends_def)
next
  case (Suc depth)
  show ?case
    unfolding extends_def
  proof (intro allI impI)
    fix r :: TypeResolver and name y
    assume a: "ResolveType (Suc depth) tree r name = Some y"
    show "ResolveType (Suc (Suc depth)) tree r name = Some y"
    proof (cases "Type (resolveBuiltInType name) \<noteq> [] \<or> name \<in> processed r")
      case True
      with a show ?thesis by auto
    next
      case False
      let ?r1 = "r\<lparr>processed := insert name (processed r)\<rparr>"
      from a False have c:
        "(case findAndParseType (ResolveType depth tree) tree ?r1 name of
            None \<Rightarrow> None
          | Some (None, r') \<Rightarrow> Some (typeSchema ''object'', r')
          | Some (Some schema, r') \<Rightarrow>
              Some (refSchema (cleanTypeName name),
                    r'\<lparr>schemas := mapPut (schemas r') (cleanTypeName name) schema\<rparr>)) = Some y"
        by simp
      then obtain z where
        f: "findAndParseType (ResolveType depth tree) tree ?r1 name = Some z"
        by (auto split: option.splits)
      note g = findAndParseType_extends [OF Suc f]
      have "ResolveType (Suc (Suc depth)) tree r name =
        (case findAndParseType (ResolveType (Suc depth) tree) tree ?r1 name of
            None \<Rightarrow> None
          | Some (None, r') \<Rightarrow> Some (typeSchema ''object'', r')
          | Some (Some schema, r') \<Rightarrow>
              Some (refSchema (cleanTypeName name),
                    r'\<lparr>schemas := mapPut (schemas r') (cleanTypeName name) schema\<rparr>))"
        using False by (subst ResolveType.simps(2)) (simp del: ResolveType.simps)
      with c f g show ?thesis by (simp del: ResolveType.simps)
    qed
  qed
qed

lemma ResolveType_depth_mono:
  "ResolveType depth tree r typeName = Some y \<Longrightarrow> depth \<le> depth' \<Longrightarrow>
   ResolveType depth' tree r typeName = Some y"
proof (induction depth' )
  case 0
  then show ?case by simp
next
  case (Suc depth')
  show ?case
  proof (cases "depth = Suc depth'")
    case True
    with Suc.prems show ?thesis by simp
  next
    case False
    with Suc have "ResolveType depth' tree r typeName = Some y" by simp
    with ResolveType_Suc_extends [of depth' tree] show ?thesis
      unfolding extends_def by blast
  qed
qed

subsection \<open>Spec Assembler\<close>

lemma map_of_mapPut: "map_of (mapPut m k v) k' = (if k' = k then Some v else map_of m k')"
  by (induction m k v rule: mapPut.induct) auto

lemma map_of_foldl_mapPut_other:
  "k \<notin> fst ` set xs \<Longrightarrow>
   map_of (foldl (\<lambda>m (c, r). mapPut m c (f c r)) acc xs) k = map_of acc k"
  by (induction xs arbitrary: acc) (auto simp: map_of_mapPut)

lemma map_of_foldl_mapPut:
  "distinct (map fst xs) \<Longrightarrow> (k, x) \<in> set xs \<Longrightarrow>
   map_of (foldl (\<lambda>m (c, r). mapPut m c (f c r)) acc xs) k = Some (f k x)"
proof (induction xs arbitrary: acc)
  case Nil
  then show ?case by simp
next
  case (Cons a xs)
  show ?case
  proof (cases "a = (k, x)")
    case True
    with Cons.prems have "k \<notin> fst ` set xs" by auto
    with True show ?thesis
      by (simp add: map_of_foldl_mapPut_other map_of_mapPut)
  next
    case False
    with Cons show ?thesis by (cases a) auto
  qed
qed

lemma createOperation_response:
  assumes "(code, response) \<in> set (Responses endpoint)"
    and "distinct (map fst (Responses endpoint))"
  shows "map_of (opResponses (createOperation endpoint)) code = Some (responseRefOf code response)"
proof -
  let ?rs = "foldl (\<lambda>m (c, r). mapPut m c (responseRefOf c r)) [] (Responses endpoint)"
  have r: "map_of ?rs code = Some (responseRefOf code response)"
    using assms by (rule map_of_foldl_mapPut [rotated])
  show ?thesis
  proof (cases "map_of ?rs ''400'' = None")
    case True
    with r have "code \<noteq> ''400''" by auto
    with True r show ?thesis
      by (simp add: createOperation_def Let_def map_of_mapPut)
  next
    case False
    with r show ?thesis by (auto simp: createOperation_def Let_def)
  qed
qed

lemma Paths_addTag: "Paths (addTag s tags name) = Paths s"
proof -
  have "Paths (foldl (\<lambda>s' newTag.
              if \<exists>existingTag\<in>set (docTags s'). tagName existingTag = newTag then s'
              else s'\<lparr>docTags := docTags s' @
                         [\<lparr>tagName = newTag, tagDescription = newTag @ '' related endpoints''\<rparr>]\<rparr>)
           s tags) = Paths s"
    by (induction tags arbitrary: s) auto
  then show ?thesis by (simp add: addTag_def)
qed

lemma AddEndpoint_operation:
  assumes "ToLower (Method endpoint) \<in>
             set [''get'', ''post'', ''put'', ''delete'', ''patch'', ''options'', ''head'']"
  shows "\<exists>pathItem. map_of (Paths (AddEndpoint s endpoint))
                       (OpenAPISpec_normalizePath (Path endpoint)) = Some pathItem \<and>
           pathItemOperation pathItem (ToLower (Method endpoint)) = Some (createOperation endpoint)"
  using assms
  by (auto simp: AddEndpoint_def Let_def Paths_addTag map_of_mapPut pathItemOperation_def)

text \<open>
  The assembler on any endpoint. A response that has a content type is serialized under
  that content type: with the schema unchanged when the status code starts with 4 or 5,
  and otherwise as an object whose only property \<open>data\<close> is the schema.
\<close>

lemma AddEndpoint_response:
  assumes "(code, response) \<in> set (Responses endpoint)"
    and "distinct (map fst (Responses endpoint))"
    and "rContentType response \<noteq> []"
    and "ToLower (Method endpoint) \<in>
           set [''get'', ''post'', ''put'', ''delete'', ''patch'', ''options'', ''head'']"
  shows "\<exists>pathItem operation.
           map_of (Paths (AddEndpoint s endpoint)) (OpenAPISpec_normalizePath (Path endpoint)) =
             Some pathItem \<and>
           pathItemOperation pathItem (ToLower (Method endpoint)) = Some operation \<and>
           map_of (opResponses operation) code =
             Some \<lparr>rfDescription = rDescription response,
                   rfContent =
                     [(rContentType response,
                       Some (if HasPrefix code ''4'' \<or> HasPrefix code ''5'' then rSchema response
                             else SchemaSpec ''object'' [] [] [] [(''data'', rSchema response)] []
                                    None [] None))]\<rparr>"
proof -
  from AddEndpoint_operation [OF assms(4), of s] obtain pathItem where
    p: "map_of (Paths (AddEndpoint s endpoint)) (OpenAPISpec_normalizePath (Path endpoint)) =
          Some pathItem"
       "pathItemOperation pathItem (ToLower (Method endpoint)) = Some (createOperation endpoint)"
    by blast
  from createOperation_response [OF assms(1,2)] assms(3)
  have "map_of (opResponses (createOperation endpoint)) code =
          Some \<lparr>rfDescription = rDescription response,
                rfContent =
                  [(rContentType response,
                    Some (if HasPrefix code ''4'' \<or> HasPrefix code ''5'' then rSchema response
                          else SchemaSpec ''object'' [] [] [] [(''data'', rSchema response)] []
                                 None [] None))]\<rparr>"
    by (simp add: responseRefOf_def wrapResponseSchema_def)
  with p show ?thesis by blast
qed

text \<open>
  The responses of the analyzer. Its table has one entry per status code, and every entry
  with a schema has the content type \<open>application/json\<close>: the only response it records
  without a content type is the 204 for \<open>http.Response(ctx)\<close>, which has no schema.
\<close>

lemma set_mapPut: "set (mapPut m k v) \<subseteq> insert (k, v) (set m)"
  by (induction m k v rule: mapPut.induct) auto

lemma fst_set_mapPut: "fst ` set (mapPut m k v) = insert k (fst ` set m)"
  by (induction m k v rule: mapPut.induct) auto

lemma distinct_mapPut: "distinct (map fst m) \<Longrightarrow> distinct (map fst (mapPut m k v))"
  by (induction m k v rule: mapPut.induct) (auto simp: fst_set_mapPut)

lemma schemaHasContentType_mapPut:
  assumes "schemaHasContentType m"
    and "rContentType r = ''application/json'' \<or> rSchema r = emptySchema"
  shows "schemaHasContentType (mapPut m k r)"
proof -
  have "\<forall>x\<in>set (mapPut m k r). case x of (code, response) \<Rightarrow>
          rContentType response = ''application/json'' \<or> rSchema response = emptySchema"
    using assms set_mapPut [of m k r]
    by (auto simp: schemaHasContentType_def list_all_iff)
  with assms(1) show ?thesis
    by (simp add: schemaHasContentType_def list_all_iff distinct_mapPut)
qed

lemma analyzeResponseCall_responses:
  "schemaHasContentType (Responses spec) \<Longrightarrow>
   schemaHasContentType (Responses (analyzeResponseCall ac args spec varTypes receiverType))"
  by (simp add: analyzeResponseCall_def Let_def jsonResponse_def schemaHasContentType_mapPut)

lemma analyzeCallExpr_responses:
  "schemaHasContentType (Responses spec) \<Longrightarrow>
   schemaHasContentType (Responses (analyzeCallExpr ac e spec varTypes receiverType))"
  by (induction ac e spec varTypes receiverType rule: analyzeCallExpr.induct)
     (simp_all add: Let_def jsonResponse_def schemaHasContentType_mapPut
        analyzeResponseCall_responses)

lemma analyzeFunctionBody_responses:
  "schemaHasContentType (Responses spec) \<Longrightarrow>
   schemaHasContentType (Responses (analyzeFunctionBody ac body spec receiverType))"
proof -
  have "schemaHasContentType (Responses spec) \<Longrightarrow>
        schemaHasContentType
          (Responses (foldl (\<lambda>spec' n. case n of
                              ExprNode e \<Rightarrow> analyzeCallExpr ac e spec' varTypes receiverType
                            | _ \<Rightarrow> spec') spec body))" for varTypes
    by (induction body arbitrary: spec)
       (auto simp: analyzeCallExpr_responses split: node.splits)
  then show "schemaHasContentType (Responses spec) \<Longrightarrow> ?thesis"
    by (simp add: analyzeFunctionBody_def Let_def)
qed

lemma enhanceEndpoint_responses: "schemaHasContentType (Responses (enhanceEndpoint ac basic))"
proof -
  have e: "schemaHasContentType []" by (simp add: schemaHasContentType_def)
  have j: "schemaHasContentType [(''200'', jsonResponse d s)]" for d s
    by (simp add: schemaHasContentType_def jsonResponse_def)
  show ?thesis
    by (auto simp: enhanceEndpoint_def basicSpec_def Let_def e j
          intro!: analyzeFunctionBody_responses split: option.splits)
qed

lemma Path_analyzeCallExpr:
  "Path (analyzeCallExpr ac e spec varTypes receiverType) = Path spec \<and>
   Method (analyzeCallExpr ac e spec varTypes receiverType) = Method spec"
  by (induction ac e spec varTypes receiverType rule: analyzeCallExpr.induct)
     (simp_all add: Let_def analyzeResponseCall_def)

lemma Path_analyzeFunctionBody:
  "Path (analyzeFunctionBody ac body spec receiverType) = Path spec \<and>
   Method (analyzeFunctionBody ac body spec receiverType) = Method spec"
proof -
  have "Path (foldl (\<lambda>spec' n. case n of
                       ExprNode e \<Rightarrow> analyzeCallExpr ac e spec' varTypes receiverType
                     | _ \<Rightarrow> spec') spec body) = Path spec \<and>
        Method (foldl (\<lambda>spec' n. case n of
                       ExprNode e \<Rightarrow> analyzeCallExpr ac e spec' varTypes receiverType
                     | _ \<Rightarrow> spec') spec body) = Method spec" for varTypes
    by (induction body arbitrary: spec)
       (auto simp: Path_analyzeCallExpr split: node.splits)
  then show ?thesis
    by (simp add: analyzeFunctionBody_def Let_def)
qed

lemma Path_enhanceEndpoint:
  "Path (enhanceEndpoint ac basic) = Path basic \<and>
   Method (enhanceEndpoint ac basic) = ToUpper (Method basic)"
  by (auto simp: enhanceEndpoint_def basicSpec_def Let_def Path_analyzeFunctionBody
        split: option.splits)

lemma lower_methods:
  "ToLower (ToUpper ''Get'') = ''get''" "ToLower (ToUpper ''Post'') = ''post''"
  "ToLower (ToUpper ''Put'') = ''put''" "ToLower (ToUpper ''Delete'') = ''delete''"
  "ToLower (ToUpper ''Patch'') = ''patch''" "ToLower (ToUpper ''Head'') = ''head''"
  "ToLower (ToUpper ''Options'') = ''options''"
  by code_simp+

lemma isHTTPMethod_lower:
  "isHTTPMethod m \<Longrightarrow>
   ToLower (ToUpper m) \<in> set [''get'', ''post'', ''put'', ''delete'', ''patch'', ''options'', ''head'']"
  unfolding isHTTPMethod_def by (auto simp: lower_methods)

text \<open>
  Claim C9 (response wrapping). Take an endpoint of the route graph builder, so one with
  an HTTP method name, and a response with a schema in what the analyzer returns for it.
  In the document the assembler builds, the operation stored at the endpoint's path and
  method serializes that response as \<open>application/json\<close>: as an object whose only
  property \<open>data\<close> is the schema when the status code starts with neither 4 nor 5 (so
  for 200 and every 2xx code), and with the schema as it is when the status code starts
  with 4 or 5. The status code is the text the analyzer recorded.
\<close>

theorem response_wrapping:
  assumes "isHTTPMethod (Method basic)"
    and "(code, response) \<in> set (Responses (enhanceEndpoint ac basic))"
    and "rSchema response \<noteq> emptySchema"
  shows "\<exists>pathItem operation.
           map_of (Paths (AddEndpoint s (enhanceEndpoint ac basic)))
             (OpenAPISpec_normalizePath (Path basic)) = Some pathItem \<and>
           pathItemOperation pathItem (ToLower (ToUpper (Method basic))) = Some operation \<and>
           map_of (opResponses operation) code =
             Some \<lparr>rfDescription = rDescription response,
                   rfContent =
                     [(''application/json'',
                       Some (if HasPrefix code ''4'' \<or> HasPrefix code ''5'' then rSchema response
                             else SchemaSpec ''object'' [] [] [] [(''data'', rSchema response)] []
                                    None [] None))]\<rparr>"
proof -
  let ?e = "enhanceEndpoint ac basic"
  have i: "schemaHasContentType (Responses ?e)" by (rule enhanceEndpoint_responses)
  then have d: "distinct (map fst (Responses ?e))"
    by (simp add: schemaHasContentType_def)
  from i assms(2,3) have c: "rContentType response = ''application/json''"
    by (auto simp: schemaHasContentType_def list_all_iff)
  then have n: "rContentType response \<noteq> []" by simp
  have m: "ToLower (Method ?e) \<in>
             set [''get'', ''post'', ''put'', ''delete'', ''patch'', ''options'', ''head'']"
    using isHTTPMethod_lower [OF assms(1)] by (simp add: Path_enhanceEndpoint)
  from AddEndpoint_response [OF assms(2) d n m, of s] show ?thesis
    by (simp add: Path_enhanceEndpoint c)
qed

lemma createFeed_responses:
  "Responses (enhanceEndpoint feedsAnalyzer createFeedEndpoint) =
     [(''400'', jsonResponse ''Bad request or error response'' errorSchema),
      (''201'', jsonResponse ''Successful response''
                  (withDescription (typeSchema ''string'')
                     (''Returns '' @ [CHR 0x22] @ ''Ok'' @ [CHR 0x22])))]"
  by code_simp

theorem response_wrapping_witness:
  "isHTTPMethod (Method createFeedEndpoint) \<and>
   (\<exists>pathItem operation.
      map_of (Paths (AddEndpoint NewOpenAPISpec (enhanceEndpoint feedsAnalyzer createFeedEndpoint)))
        ''/feeds'' = Some pathItem \<and>
      Post pathItem = Some operation \<and>
      map_of (opResponses operation) ''201'' =
        Some \<lparr>rfDescription = ''Successful response'',
              rfContent =
                [(''application/json'',
                  Some (SchemaSpec ''object'' [] [] []
                          [(''data'', SchemaSpec ''string'' []
                                       (''Returns '' @ [CHR 0x22] @ ''Ok'' @ [CHR 0x22])
                                       [] [] [] None [] None)]
                          [] None [] None))]\<rparr> \<and>
      map_of (opResponses operation) ''400'' =
        Some \<lparr>rfDescription = ''Bad request or error response'',
              rfContent = [(''application/json'', Some errorSchema)]\<rparr>)"
proof -
  let ?e = "enhanceEndpoint feedsAnalyzer createFeedEndpoint"
  let ?ok = "jsonResponse ''Successful response''
               (withDescription (typeSchema ''string'')
                  (''Returns '' @ [CHR 0x22] @ ''Ok'' @ [CHR 0x22]))"
  let ?bad = "jsonResponse ''Bad request or error response'' errorSchema"
  have m: "isHTTPMethod (Method createFeedEndpoint)"
    by (simp add: createFeedEndpoint_def isHTTPMethod_def)
  have a1: "(''201'', ?ok) \<in> set (Responses ?e)" by (simp add: createFeed_responses)
  have a2: "(''400'', ?bad) \<in> set (Responses ?e)" by (simp add: createFeed_responses)
  have s1: "rSchema ?ok \<noteq> emptySchema"
    by (simp add: jsonResponse_def withDescription_def typeSchema_def emptySchema_def)
  have s2: "rSchema ?bad \<noteq> emptySchema"
    by (simp add: jsonResponse_def errorSchema_def emptySchema_def)
  have n: "OpenAPISpec_normalizePath (Path createFeedEndpoint) = ''/feeds''"
    by (simp add: createFeedEndpoint_def OpenAPISpec_normalizePath_def HasPrefix_def)
  have l: "ToLower (ToUpper (Method createFeedEndpoint)) = ''post''"
    by (simp add: createFeedEndpoint_def lower_methods)
  from response_wrapping [OF m a1 s1, of NewOpenAPISpec] obtain pathItem operation where
    p: "map_of (Paths (AddEndpoint NewOpenAPISpec ?e)) ''/feeds'' = Some pathItem"
       "Post pathItem = Some operation"
       "map_of (opResponses operation) ''201'' =
          Some \<lparr>rfDescription = ''Successful response'',
                rfContent =
                  [(''application/json'',
                    Some (SchemaSpec ''object'' [] [] []
                            [(''data'', SchemaSpec ''string'' []
                                         (''Returns '' @ [CHR 0x22] @ ''Ok'' @ [CHR 0x22])
                                         [] [] [] None [] None)]
                            [] None [] None))]\<rparr>"
    by (auto simp: n l pathItemOperation_def jsonResponse_def withDescription_def
          typeSchema_def HasPrefix_def)
  from response_wrapping [OF m a2 s2, of NewOpenAPISpec] p(1,2)
  have "map_of (opResponses operation) ''400'' =
          Some \<lparr>rfDescription = ''Bad request or error response'',
                rfContent = [(''application/json'', Some errorSchema)]\<rparr>"
    by (auto simp: n l pathItemOperation_def jsonResponse_def HasPrefix_def)
  with m p show ?thesis by blast
qed

text \<open>
  The response without a schema: for \<open>http.Response(ctx)\<close> the analyzer records a 204
  with a description only, and the operation has no content for it.
\<close>

lemma ping_responses:
  "Responses (enhanceEndpoint feedsAnalyzer pingEndpoint) =
     [(''204'', \<lparr>rDescription = ''No content'', rContentType = [], rSchema = emptySchema\<rparr>)]"
  by code_simp

lemma ping_no_content:
  "map_of (opResponses (createOperation (enhanceEndpoint feedsAnalyzer pingEndpoint))) ''204'' =
     Some \<lparr>rfDescription = ''No content'', rfContent = []\<rparr>"
  by code_simp

subsection \<open>Degraded results\<close>

text \<open>
  Claim C2 (handler not found), where the code departs from it. For an endpoint whose
  handler is not in the function table, \<open>enhanceEndpoint\<close> returns before the default
  response is set: the spec has path, method, tags and security and an empty response
  table, so the operation built from it has the injected 400 response and no 200
  response. With a handler that is found and records no response of its own, the default
  200 response is set.
\<close>

theorem unknown_handler_no_response:
  assumes "functionDecls ac (Handler basic) = None"
  shows "enhanceEndpoint ac basic = basicSpec ac basic \<and>
         Path (enhanceEndpoint ac basic) = Path basic \<and>
         Method (enhanceEndpoint ac basic) = ToUpper (Method basic) \<and>
         Tags (enhanceEndpoint ac basic) = assignTags ac (Path basic) \<and>
         Security (enhanceEndpoint ac basic) = extractSecurity (Middleware basic) \<and>
         Responses (enhanceEndpoint ac basic) = [] \<and>
         opResponses (createOperation (enhanceEndpoint ac basic)) = [(''400'', defaultBadRequest)]"
  using assms by (simp add: enhanceEndpoint_def basicSpec_def createOperation_def)

theorem unknown_handler_no_response_witness:
  "functionDecls feedsAnalyzer (Handler unknownHandlerEndpoint) = None \<and>
   enhanceEndpoint feedsAnalyzer unknownHandlerEndpoint =
     \<lparr>Path = ''/feeds'', Method = ''GET'', Handler = ''listAll'', MSName = ''ms_feeds'',
      Middleware = [''gates.IsAuthenticated.Authenticated()''],
      Summary = [], eDescription = [], Tags = [''Feeds''], Parameters = [],
      RequestBody = None, Responses = [],
      Security = [\<lparr>Name = ''bearerAuth'', Scopes = []\<rparr>], HandlerFunction = None\<rparr> \<and>
   opResponses (createOperation (enhanceEndpoint feedsAnalyzer unknownHandlerEndpoint)) =
     [(''400'', defaultBadRequest)] \<and>
   Responses (enhanceEndpoint feedsAnalyzer (unknownHandlerEndpoint\<lparr>Handler := ''health''\<rparr>)) =
     [(''200'', jsonResponse ''Successful response'' (typeSchema ''object''))]"
proof -
  have h: "functionDecls feedsAnalyzer (Handler unknownHandlerEndpoint) = None"
    by code_simp
  have b: "basicSpec feedsAnalyzer unknownHandlerEndpoint =
     \<lparr>Path = ''/feeds'', Method = ''GET'', Handler = ''listAll'', MSName = ''ms_feeds'',
      Middleware = [''gates.IsAuthenticated.Authenticated()''],
      Summary = [], eDescription = [], Tags = [''Feeds''], Parameters = [],
      RequestBody = None, Responses = [],
      Security = [\<lparr>Name = ''bearerAuth'', Scopes = []\<rparr>], HandlerFunction = None\<rparr>"
    by code_simp
  have d: "Responses (enhanceEndpoint feedsAnalyzer (unknownHandlerEndpoint\<lparr>Handler := ''health''\<rparr>)) =
     [(''200'', jsonResponse ''Successful response'' (typeSchema ''object''))]"
    by code_simp
  note t = unknown_handler_no_response [OF h]
  from t b have e: "enhanceEndpoint feedsAnalyzer unknownHandlerEndpoint =
     \<lparr>Path = ''/feeds'', Method = ''GET'', Handler = ''listAll'', MSName = ''ms_feeds'',
      Middleware = [''gates.IsAuthenticated.Authenticated()''],
      Summary = [], eDescription = [], Tags = [''Feeds''], Parameters = [],
      RequestBody = None, Responses = [],
      Security = [\<lparr>Name = ''bearerAuth'', Scopes = []\<rparr>], HandlerFunction = None\<rparr>"
    by simp
  from t have o: "opResponses (createOperation (enhanceEndpoint feedsAnalyzer unknownHandlerEndpoint)) =
     [(''400'', defaultBadRequest)]"
    by blast
  show ?thesis
    by (intro conjI) (rule h e o d)+
qed

text \<open>
  Claim C7 (idempotence), where the code departs from it. When the lookup of a type name
  that is neither built in nor processed finds no declaration, the first call returns the
  generic object schema and leaves the name marked as processed without an entry in the
  table; every later call then returns a reference to the type's schema name, which is a
  different result and refers to a schema the table does not have.
\<close>

theorem resolve_twice_differs:
  assumes "Type (resolveBuiltInType typeName) = []"
    and "typeName \<notin> processed r"
    and "findAndParseType (ResolveType depth tree) tree
           (r\<lparr>processed := insert typeName (processed r)\<rparr>) typeName = Some (None, r')"
  shows "ResolveType (Suc depth) tree r typeName = Some (typeSchema ''object'', r') \<and>
         ResolveType (Suc depth') tree r' typeName =
           Some (refSchema (cleanTypeName typeName), r') \<and>
         typeSchema ''object'' \<noteq> refSchema (cleanTypeName typeName)"
proof -
  from findAndParseType_growing [OF ResolveType_growing assms(3)]
  have "typeName \<in> processed r'" by auto
  with assms show ?thesis
    by (simp add: typeSchema_def refSchema_def)
qed

theorem resolve_twice_differs_witness:
  "ResolveType 1 [feedFile] NewTypeResolver ''FeedsListResponse'' =
     Some (typeSchema ''object'', \<lparr>schemas = [], processed = {''FeedsListResponse''}\<rparr>) \<and>
   ResolveType 1 [feedFile] \<lparr>schemas = [], processed = {''FeedsListResponse''}\<rparr>
       ''FeedsListResponse'' =
     Some (refSchema ''FeedsListResponse'',
           \<lparr>schemas = [], processed = {''FeedsListResponse''}\<rparr>) \<and>
   map_of (schemas \<lparr>schemas = [], processed = {''FeedsListResponse''}\<rparr>) ''FeedsListResponse'' = None"
proof -
  have c: "cleanTypeName ''FeedsListResponse'' = ''FeedsListResponse''" by code_simp
  have b: "Type (resolveBuiltInType ''FeedsListResponse'') = []" by code_simp
  have n: "''FeedsListResponse'' \<notin> processed NewTypeResolver"
    by (simp add: NewTypeResolver_def)
  have f: "findAndParseType (ResolveType 0 [feedFile]) [feedFile]
             (NewTypeResolver\<lparr>processed := insert ''FeedsListResponse'' (processed NewTypeResolver)\<rparr>)
             ''FeedsListResponse'' =
           Some (None, \<lparr>schemas = [], processed = {''FeedsListResponse''}\<rparr>)"
    by (simp add: findAndParseType_def Contains_def HasPrefix_def findGoFiles_def feedFile_def
        HasSuffix_def parseFileForType_def NewTypeResolver_def)
  from resolve_twice_differs [OF b n f, of 0] show ?thesis
    by (simp add: c)
qed

lemma ResolveType_marks:
  assumes "ResolveType depth tree r typeName = Some (s, r')"
  shows "Type (resolveBuiltInType typeName) \<noteq> [] \<or> typeName \<in> processed r'"
proof (cases depth)
  case 0
  with assms show ?thesis by simp
next
  case (Suc d)
  show ?thesis
  proof (cases "Type (resolveBuiltInType typeName) \<noteq> [] \<or> typeName \<in> processed r")
    case True
    with assms Suc show ?thesis by (auto split: if_splits)
  next
    case False
    with assms Suc obtain res r2 where
      f: "findAndParseType (ResolveType d tree) tree
            (r\<lparr>processed := insert typeName (processed r)\<rparr>) typeName = Some (res, r2)"
      and p: "processed r' = processed r2"
      by (auto split: option.splits)
    from findAndParseType_growing [OF ResolveType_growing f] p show ?thesis by auto
  qed
qed

lemma ResolveType_result:
  assumes "ResolveType depth tree r typeName = Some (s, r')"
  shows "(Type (resolveBuiltInType typeName) \<noteq> [] \<and> s = resolveBuiltInType typeName) \<or>
         s = refSchema (cleanTypeName typeName) \<or> s = typeSchema ''object''"
  using assms by (cases depth) (auto split: if_splits option.splits)

lemma ResolveType_second_call:
  assumes "ResolveType depth tree r typeName = Some (s, r')"
  shows "\<exists>s'. ResolveType (Suc depth') tree r' typeName = Some (s', r') \<and>
              (s' = s \<or> (s = typeSchema ''object'' \<and> s' = refSchema (cleanTypeName typeName)))"
proof (cases "Type (resolveBuiltInType typeName) \<noteq> []")
  case True
  with assms have "s = resolveBuiltInType typeName"
    by (cases depth) (auto split: if_splits)
  with True show ?thesis by simp
next
  case False
  with ResolveType_marks [OF assms] have "typeName \<in> processed r'" by simp
  moreover from ResolveType_result [OF assms] False
  have "s = refSchema (cleanTypeName typeName) \<or> s = typeSchema ''object''"
    by auto
  ultimately show ?thesis using False by auto
qed

text \<open>
  Claim C1 (no dangling reference), evaluated where the code departs from it. The handler
  of \<open>GET /feeds\<close> responds with a value whose inferred type \<open>FeedsListResponse\<close> has no
  declaration under the models root. After the assembly the response under the paths
  still refers to \<open>#/components/schemas/FeedsListResponse\<close> and the component schemas
  have no entry of that name.
\<close>

theorem unresolved_reference_dangling:
  "map_option (\<lambda>doc. (collectTypeReferences doc, map_of (Schemas doc) ''FeedsListResponse'',
                       referencesResolved doc))
     (assemble 1 [feedFile] [enhanceEndpoint feedsAnalyzer listFeedsEndpoint] [] []) =
   Some ([''FeedsListResponse''], None, False)"
  by code_simp

theorem unresolved_reference_dangling_witness:
  "map_option (\<lambda>doc. map_of (Schemas doc) ''FeedsListResponse'')
     (assemble 1 [feedFile] [enhanceEndpoint feedsAnalyzer listFeedsEndpoint] [] []) = Some None"
  using unresolved_reference_dangling
  by (auto simp: map_option_case split: option.splits)


end
